theory Spec2Isabelle
  imports Main "HOL-Library.Word" "HOL-Library.List_Lexorder"
begin

unbundle bit_operations_syntax

section \<open>The Multicast Routing manager of the border router\<close>

text \<open>
  A shallow embedding of \<^verbatim>\<open>src/backbone_router/multicast_routing.{hpp,cpp}\<close> and of
  \<^verbatim>\<open>Ip6Address::GetScope\<close> (\<^verbatim>\<open>common/types.cpp\<close>).  Member functions become functions
  on a record of the member variables; the system calls they make are answered by a
  \<open>host\<close> record and recorded, in order, in the manager record.  Logging
  (\<^verbatim>\<open>otbrLog\<close>, \<^verbatim>\<open>otbrLogResult\<close>, \<^verbatim>\<open>DumpMulticastForwardingCache\<close>) changes no state and
  is left out.
\<close>

subsection \<open>Ip6Address\<close>

text \<open>The sixteen bytes \<^verbatim>\<open>m8[16]\<close> of an address, most significant first.\<close>

type_synonym Ip6Address = "8 word list"

text \<open>\<^verbatim>\<open>m8[i]\<close>; an address has sixteen bytes, a shorter list reads as padded with zero.\<close>

definition m8 :: "Ip6Address \<Rightarrow> nat \<Rightarrow> 8 word" where
  "m8 a i = (case drop i a of [] \<Rightarrow> 0 | b # _ \<Rightarrow> b)"

text \<open>
  \<^verbatim>\<open>m16[i]\<close> and \<^verbatim>\<open>m32[i]\<close> are the union's views of the same bytes in host byte order;
  the flag says whether the host is big-endian.
\<close>

definition m16 :: "bool \<Rightarrow> Ip6Address \<Rightarrow> nat \<Rightarrow> 16 word" where
  "m16 be a i =
     (let b0 = ucast (m8 a (2 * i)) :: 16 word; b1 = ucast (m8 a (2 * i + 1)) :: 16 word
      in if be then push_bit 8 b0 OR b1 else push_bit 8 b1 OR b0)"

definition m32 :: "bool \<Rightarrow> Ip6Address \<Rightarrow> nat \<Rightarrow> 32 word" where
  "m32 be a i =
     (let b0 = ucast (m8 a (4 * i)) :: 32 word; b1 = ucast (m8 a (4 * i + 1)) :: 32 word;
          b2 = ucast (m8 a (4 * i + 2)) :: 32 word; b3 = ucast (m8 a (4 * i + 3)) :: 32 word
      in if be then push_bit 24 b0 OR push_bit 16 b1 OR push_bit 8 b2 OR b3
         else push_bit 24 b3 OR push_bit 16 b2 OR push_bit 8 b1 OR b0)"

text \<open>\<^verbatim>\<open>htonl\<close>: the identity on a big-endian host, a byte swap on a little-endian one.\<close>

definition htonl :: "bool \<Rightarrow> 32 word \<Rightarrow> 32 word" where
  "htonl be x =
     (if be then x
      else push_bit 24 (x AND 0xff) OR push_bit 8 (x AND 0xff00)
           OR drop_bit 8 (x AND 0xff0000) OR drop_bit 24 x)"

text \<open>
  Modelled from the spec: the declarations of \<^verbatim>\<open>class Ip6Address\<close> (the scope constants,
  \<^verbatim>\<open>IsMulticast\<close>, \<^verbatim>\<open>operator<\<close>, \<^verbatim>\<open>operator==\<close>, \<^verbatim>\<open>operator!=\<close>) are in \<^verbatim>\<open>common/types.hpp\<close>, which is
  not among the sources.  The spec gives the scopes \<open>0x1\<close> node-local, \<open>0x2\<close> link-local,
  \<open>0x3\<close> realm-local, \<open>0xE\<close> global.
\<close>

definition kNodeLocalScope :: "8 word" where "kNodeLocalScope = 1"
definition kLinkLocalScope :: "8 word" where "kLinkLocalScope = 2"
definition kRealmLocalScope :: "8 word" where "kRealmLocalScope = 3"
definition kGlobalScope :: "8 word" where "kGlobalScope = 0xe"

text \<open>Modelled from the spec: \<open>is_multicast()\<close> holds when byte 0 equals \<open>0xFF\<close>.\<close>

definition IsMulticast :: "Ip6Address \<Rightarrow> bool" where
  "IsMulticast a \<longleftrightarrow> m8 a 0 = 0xff"

text \<open>
  Modelled from the spec: the total order of \<^verbatim>\<open>Ip6Address\<close> is lexicographic on the
  bytes (bytes compare as unsigned numbers), and its equality is equality of the bytes.
\<close>

definition Ip6Address_less :: "Ip6Address \<Rightarrow> Ip6Address \<Rightarrow> bool" where
  "Ip6Address_less a b \<longleftrightarrow> a < b"

definition Ip6Address_eq :: "Ip6Address \<Rightarrow> Ip6Address \<Rightarrow> bool" where
  "Ip6Address_eq a b \<longleftrightarrow> a = b"

definition Ip6Address_neq :: "Ip6Address \<Rightarrow> Ip6Address \<Rightarrow> bool" where
  "Ip6Address_neq a b \<longleftrightarrow> a \<noteq> b"

text \<open>
  \<^verbatim>\<open>IsLoopback\<close>, \<^verbatim>\<open>IsLinkLocal\<close> and \<^verbatim>\<open>GetScope\<close> as written.  In \<^verbatim>\<open>IsLinkLocal\<close> the
  16-bit \<^verbatim>\<open>m16[0]\<close> is widened to 32 bits and masked with the 32-bit result of \<^verbatim>\<open>htonl\<close>.
\<close>

definition IsLoopback :: "bool \<Rightarrow> Ip6Address \<Rightarrow> bool" where
  "IsLoopback be a \<longleftrightarrow>
     m32 be a 0 = 0 \<and> m32 be a 1 = 0 \<and> m32 be a 2 = 0 \<and> m32 be a 3 = htonl be 1"

definition IsLinkLocal :: "bool \<Rightarrow> Ip6Address \<Rightarrow> bool" where
  "IsLinkLocal be a \<longleftrightarrow>
     (ucast (m16 be a 0) :: 32 word) AND htonl be 0xffc0 = htonl be 0xfe80"

definition GetScope :: "bool \<Rightarrow> Ip6Address \<Rightarrow> 8 word" where
  "GetScope be a =
     (if IsMulticast a then m8 a 1 AND 0xf
      else if IsLinkLocal be a then kLinkLocalScope
      else if IsLoopback be a then kNodeLocalScope
      else kGlobalScope)"

subsection \<open>Routes and route information\<close>

text \<open>\<^verbatim>\<open>enum MifIndex : uint8_t\<close>.\<close>

type_synonym MifIndex = "8 word"

definition kMifIndexNone :: MifIndex where "kMifIndexNone = 0xff"
definition kMifIndexThread :: MifIndex where "kMifIndexThread = 0"
definition kMifIndexBackbone :: MifIndex where "kMifIndexBackbone = 1"

record MulticastRoute =
  mSrcAddr :: Ip6Address
  mGroupAddr :: Ip6Address

text \<open>\<^verbatim>\<open>MulticastRoute::operator<\<close>.\<close>

definition route_less :: "MulticastRoute \<Rightarrow> MulticastRoute \<Rightarrow> bool" where
  "route_less a aOther =
     (if Ip6Address_neq (mGroupAddr a) (mGroupAddr aOther)
        then Ip6Address_less (mGroupAddr a) (mGroupAddr aOther)
      else if Ip6Address_neq (mSrcAddr a) (mSrcAddr aOther)
        then Ip6Address_less (mSrcAddr a) (mSrcAddr aOther)
      else False)"

text \<open>
  A time point of \<^verbatim>\<open>std::chrono::steady_clock\<close> is a count of nanoseconds;
  \<^verbatim>\<open>unsigned long\<close> has 64 bits (LP64).
\<close>

record MulticastRouteInfo =
  mLastUseTime :: int
  mValidPktCnt :: "64 word"
  mOif :: MifIndex
  mIif :: MifIndex

definition chrono_seconds :: "int \<Rightarrow> int" where
  "chrono_seconds n = n * 1000000000"

definition kMulticastForwardingCacheExpireTimeout :: int where
  "kMulticastForwardingCacheExpireTimeout = 300"

subsection \<open>The forwarding cache: \<^verbatim>\<open>std::map<MulticastRoute, MulticastRouteInfo>\<close>\<close>

text \<open>
  The map is its list of entries in iteration order.  Two keys are the same key when
  neither is less than the other, as in \<^verbatim>\<open>std::map\<close>.
\<close>

type_synonym mfc_map = "(MulticastRoute \<times> MulticastRouteInfo) list"

definition route_equiv :: "MulticastRoute \<Rightarrow> MulticastRoute \<Rightarrow> bool" where
  "route_equiv a b \<longleftrightarrow> \<not> route_less a b \<and> \<not> route_less b a"

fun mfc_find :: "MulticastRoute \<Rightarrow> mfc_map \<Rightarrow> MulticastRouteInfo option" where
  "mfc_find r [] = None"
| "mfc_find r ((k, v) # m) = (if route_equiv r k then Some v else mfc_find r m)"

text \<open>\<^verbatim>\<open>m[r] = v\<close>: overwrite the entry of \<open>r\<close>, or insert it at its place in the order.\<close>

fun mfc_assign :: "MulticastRoute \<Rightarrow> MulticastRouteInfo \<Rightarrow> mfc_map \<Rightarrow> mfc_map" where
  "mfc_assign r v [] = [(r, v)]"
| "mfc_assign r v ((k, w) # m) =
     (if route_less r k then (r, v) # (k, w) # m
      else if route_less k r then (k, w) # mfc_assign r v m
      else (k, v) # m)"

fun mfc_erase :: "MulticastRoute \<Rightarrow> mfc_map \<Rightarrow> mfc_map" where
  "mfc_erase r [] = []"
| "mfc_erase r ((k, w) # m) = (if route_equiv r k then m else (k, w) # mfc_erase r m)"

text \<open>The representation invariant of the map: keys strictly increasing.\<close>

abbreviation mfc_sorted :: "mfc_map \<Rightarrow> bool" where
  "mfc_sorted m \<equiv> sorted_wrt route_less (map fst m)"

text \<open>
  \<^verbatim>\<open>MulticastRouteInfo() = default\<close>: the entry that \<^verbatim>\<open>m[r]\<close> inserts for an absent key is
  value-initialised, all members zero.
\<close>

definition MulticastRouteInfo_default :: MulticastRouteInfo where
  "MulticastRouteInfo_default =
     \<lparr>mLastUseTime = 0, mValidPktCnt = 0, mOif = 0, mIif = 0\<rparr>"

text \<open>\<^verbatim>\<open>m[r]\<close> read as a reference: the entry of \<open>r\<close>, inserted first when absent.\<close>

definition mfc_subscript :: "MulticastRoute \<Rightarrow> mfc_map \<Rightarrow> MulticastRouteInfo \<times> mfc_map" where
  "mfc_subscript r m =
     (case mfc_find r m of
        Some v \<Rightarrow> (v, m)
      | None \<Rightarrow> (MulticastRouteInfo_default, mfc_assign r MulticastRouteInfo_default m))"

subsection \<open>The host: system calls and the clock\<close>

text \<open>
  \<^verbatim>\<open>struct mif6ctl\<close> and \<^verbatim>\<open>struct mf6cctl\<close> of \<^verbatim>\<open><linux/mroute6.h>\<close>, with the fields the
  manager sets.  \<^verbatim>\<open>mif6c_pifi\<close> is a 16-bit field there.
\<close>

record mif6ctl =
  mif6c_mifi :: MifIndex
  mif6c_flags :: "8 word"
  vifc_threshold :: "8 word"
  mif6c_pifi :: "16 word"
  vifc_rate_limit :: "32 word"

record mf6cctl =
  mf6cc_origin :: Ip6Address
  mf6cc_mcastgrp :: Ip6Address
  mf6cc_parent :: MifIndex
  mf6cc_ifset :: "MifIndex set"

datatype sockopt =
    MRT6_INIT
  | ICMP6_FILTER_BLOCKALL
  | MRT6_ADD_MIF mif6ctl
  | MRT6_ADD_MFC mf6cctl
  | MRT6_DEL_MFC mf6cctl

datatype syscall =
    Socket
  | Setsockopt int sockopt
  | If_nametoindex string
  | Ioctl_SIOCGETSGCNT_IN6 int Ip6Address Ip6Address
  | Close int

record sioc_sg_req6 =
  pktcnt :: "64 word"
  bytecnt :: "64 word"
  wrong_if :: "64 word"

text \<open>
  What the host answers.  \<open>sys_setsockopt\<close> gives the return value and the value of
  \<^verbatim>\<open>errno\<close> after the call; \<open>sys_ioctl\<close> the return value and the counters it filled in;
  \<open>sys_clock n\<close> is the \<open>n\<close>-th reading of \<^verbatim>\<open>Clock::now()\<close>.  The interface names are those
  of \<^verbatim>\<open>InstanceParams\<close>.  The answers are indexed by the arguments of the call: one run
  of a member function makes no \<^verbatim>\<open>setsockopt\<close> or \<^verbatim>\<open>ioctl\<close> call twice with the same
  arguments (the keys of the cache are distinct), and a host may be different from one
  run to the next.
\<close>

record host =
  big_endian :: bool
  ThreadIfName :: string
  BackboneIfName :: string
  sys_socket :: int
  sys_setsockopt :: "int \<Rightarrow> sockopt \<Rightarrow> int \<times> int"
  sys_if_nametoindex :: "string \<Rightarrow> 32 word"
  sys_ioctl :: "int \<Rightarrow> Ip6Address \<Rightarrow> Ip6Address \<Rightarrow> int \<times> sioc_sg_req6"
  sys_clock :: "nat \<Rightarrow> int"

definition ENOENT :: int where "ENOENT = 2"

datatype otbrError = OTBR_ERROR_NONE | OTBR_ERROR_ERRNO | OTBR_ERROR_INVALID_ARGS

subsection \<open>The manager\<close>

text \<open>
  The three member variables, then the system calls issued so far (oldest first) and the
  number of clock readings taken so far.
\<close>

record MulticastRoutingManager =
  mListenerSet :: "Ip6Address set"
  mMulticastRouterSock :: int
  mMulticastForwardingCache :: mfc_map
  syscalls :: "syscall list"
  clock_reads :: nat

text \<open>The constructor.\<close>

definition MulticastRoutingManager_new :: MulticastRoutingManager where
  "MulticastRoutingManager_new =
     \<lparr>mListenerSet = {}, mMulticastRouterSock = -1, mMulticastForwardingCache = [],
      syscalls = [], clock_reads = 0\<rparr>"

definition issue :: "syscall \<Rightarrow> MulticastRoutingManager \<Rightarrow> MulticastRoutingManager" where
  "issue c s = s\<lparr>syscalls := syscalls s @ [c]\<rparr>"

definition Clock_now :: "host \<Rightarrow> MulticastRoutingManager \<Rightarrow> int \<times> MulticastRoutingManager" where
  "Clock_now h s = (sys_clock h (clock_reads s), s\<lparr>clock_reads := Suc (clock_reads s)\<rparr>)"

definition IsEnabled :: "MulticastRoutingManager \<Rightarrow> bool" where
  "IsEnabled s \<longleftrightarrow> mMulticastRouterSock s \<ge> 0"

text \<open>\<^verbatim>\<open>MulticastRouteInfo(aIif, aOif)\<close>: the constructor reads the clock.\<close>

definition MulticastRouteInfo_new ::
  "host \<Rightarrow> MifIndex \<Rightarrow> MifIndex \<Rightarrow> MulticastRoutingManager
     \<Rightarrow> MulticastRouteInfo \<times> MulticastRoutingManager" where
  "MulticastRouteInfo_new h aIif aOif s =
     (case Clock_now h s of (t, s') \<Rightarrow>
        (\<lparr>mLastUseTime = t, mValidPktCnt = 0, mOif = aOif, mIif = aIif\<rparr>, s'))"

definition FinalizeMulticastRouterSock :: "MulticastRoutingManager \<Rightarrow> MulticastRoutingManager" where
  "FinalizeMulticastRouterSock s =
     (if mMulticastRouterSock s \<noteq> -1
      then (issue (Close (mMulticastRouterSock s)) s)\<lparr>mMulticastRouterSock := -1\<rparr>
      else s)"

text \<open>
  The exit label of \<^verbatim>\<open>InitMulticastRouterSock\<close>, and the two steps that register an
  interface (name lookup, check of the index, \<^verbatim>\<open>MRT6_ADD_MIF\<close>), which the source writes
  out once for Thread and once for Backbone; the flag says whether both checks passed.
\<close>

definition init_exit ::
  "otbrError \<Rightarrow> MulticastRoutingManager \<Rightarrow> otbrError \<times> MulticastRoutingManager" where
  "init_exit error s =
     (if error \<noteq> OTBR_ERROR_NONE then (error, FinalizeMulticastRouterSock s) else (error, s))"

definition add_mif ::
  "host \<Rightarrow> MifIndex \<Rightarrow> string \<Rightarrow> MulticastRoutingManager \<Rightarrow> bool \<times> MulticastRoutingManager" where
  "add_mif h mifi ifname s =
     (let s1 = issue (If_nametoindex ifname) s;
          ctl = \<lparr>mif6c_mifi = mifi, mif6c_flags = 0, vifc_threshold = 1,
                 mif6c_pifi = ucast (sys_if_nametoindex h ifname), vifc_rate_limit = 0\<rparr>
      in if \<not> mif6c_pifi ctl > 0 then (False, s1)
         else (let fd = mMulticastRouterSock s1;
                   s2 = issue (Setsockopt fd (MRT6_ADD_MIF ctl)) s1
               in (0 = fst (sys_setsockopt h fd (MRT6_ADD_MIF ctl)), s2)))"

definition InitMulticastRouterSock ::
  "host \<Rightarrow> MulticastRoutingManager \<Rightarrow> otbrError \<times> MulticastRoutingManager" where
  "InitMulticastRouterSock h s =
     (if mMulticastRouterSock s \<noteq> -1 then init_exit OTBR_ERROR_NONE s
      else
        let s1 = (issue Socket s)\<lparr>mMulticastRouterSock := sys_socket h\<rparr>;
            fd = mMulticastRouterSock s1
        in if \<not> fd \<noteq> -1 then init_exit OTBR_ERROR_ERRNO s1
        else
          let s2 = issue (Setsockopt fd MRT6_INIT) s1
          in if \<not> 0 = fst (sys_setsockopt h fd MRT6_INIT) then init_exit OTBR_ERROR_ERRNO s2
          else
            let s3 = issue (Setsockopt fd ICMP6_FILTER_BLOCKALL) s2
            in if \<not> 0 = fst (sys_setsockopt h fd ICMP6_FILTER_BLOCKALL)
               then init_exit OTBR_ERROR_ERRNO s3
            else
              (case add_mif h kMifIndexThread (ThreadIfName h) s3 of (ok4, s4) \<Rightarrow>
                 if \<not> ok4 then init_exit OTBR_ERROR_ERRNO s4
                 else
                   (case add_mif h kMifIndexBackbone (BackboneIfName h) s4 of (ok5, s5) \<Rightarrow>
                      if \<not> ok5 then init_exit OTBR_ERROR_ERRNO s5
                      else init_exit OTBR_ERROR_NONE s5)))"

definition Enable :: "host \<Rightarrow> MulticastRoutingManager \<Rightarrow> MulticastRoutingManager" where
  "Enable h s = (if \<not> \<not> IsEnabled s then s else snd (InitMulticastRouterSock h s))"

definition Disable :: "MulticastRoutingManager \<Rightarrow> MulticastRoutingManager" where
  "Disable s = (if \<not> IsEnabled s then s else FinalizeMulticastRouterSock s)"

subsection \<open>Expiry\<close>

definition UpdateMulticastRouteInfo ::
  "host \<Rightarrow> MulticastRoute \<Rightarrow> MulticastRoutingManager \<Rightarrow> bool \<times> MulticastRoutingManager" where
  "UpdateMulticastRouteInfo h route s =
     (case mfc_subscript route (mMulticastForwardingCache s) of (routeInfo, cache) \<Rightarrow>
        let fd = mMulticastRouterSock s;
            s1 = issue (Ioctl_SIOCGETSGCNT_IN6 fd (mSrcAddr route) (mGroupAddr route))
                   (s\<lparr>mMulticastForwardingCache := cache\<rparr>)
        in case sys_ioctl h fd (mSrcAddr route) (mGroupAddr route) of (ret, sioc_sg_req6) \<Rightarrow>
             if ret \<noteq> -1 then
               (let validPktCnt = pktcnt sioc_sg_req6 - wrong_if sioc_sg_req6
                in if validPktCnt \<noteq> mValidPktCnt routeInfo then
                     (case Clock_now h s1 of (t, s2) \<Rightarrow>
                        (True,
                         s2\<lparr>mMulticastForwardingCache :=
                              mfc_assign route
                                (routeInfo\<lparr>mValidPktCnt := pktcnt sioc_sg_req6, mLastUseTime := t\<rparr>)
                                (mMulticastForwardingCache s2)\<rparr>))
                   else (False, s1))
             else (False, s1))"

text \<open>
  The body of the loop of \<^verbatim>\<open>ExpireMulticastForwardingCache\<close> at the entry the iterator
  points to; \<open>routeInfo\<close> is the copy of \<^verbatim>\<open>it->second\<close> taken at the head of the body.
\<close>

definition expire_entry ::
  "host \<Rightarrow> int \<Rightarrow> MulticastRoute \<times> MulticastRouteInfo \<Rightarrow> MulticastRoutingManager
     \<Rightarrow> MulticastRoutingManager" where
  "expire_entry h now e s =
     (case e of (route, routeInfo) \<Rightarrow>
        if mLastUseTime routeInfo + chrono_seconds kMulticastForwardingCacheExpireTimeout < now
        then
          (case UpdateMulticastRouteInfo h route s of (updated, s1) \<Rightarrow>
             if \<not> updated then
               (let fd = mMulticastRouterSock s1;
                    ctl = \<lparr>mf6cc_origin = mSrcAddr route, mf6cc_mcastgrp = mGroupAddr route,
                           mf6cc_parent = mIif routeInfo, mf6cc_ifset = {}\<rparr>;
                    s2 = issue (Setsockopt fd (MRT6_DEL_MFC ctl)) s1
                in case sys_setsockopt h fd (MRT6_DEL_MFC ctl) of (ret, errno) \<Rightarrow>
                     if ret = 0 \<or> errno = ENOENT
                     then s2\<lparr>mMulticastForwardingCache :=
                               mfc_erase route (mMulticastForwardingCache s2)\<rparr>
                     else s2)
             else s1)
        else s)"

text \<open>
  The loop visits the entries in map order.  Its body changes or erases only the entry
  it is at, so the entries still to visit are those of the map when the loop started.
\<close>

fun expire_loop ::
  "host \<Rightarrow> int \<Rightarrow> mfc_map \<Rightarrow> MulticastRoutingManager \<Rightarrow> MulticastRoutingManager" where
  "expire_loop h now [] s = s"
| "expire_loop h now (e # es) s = expire_loop h now es (expire_entry h now e s)"

definition ExpireMulticastForwardingCache ::
  "host \<Rightarrow> MulticastRoutingManager \<Rightarrow> MulticastRoutingManager" where
  "ExpireMulticastForwardingCache h s =
     (case Clock_now h s of (now, s0) \<Rightarrow>
        expire_loop h now (mMulticastForwardingCache s0) s0)"

subsection \<open>Upcalls\<close>

definition AddMulticastForwardingCache ::
  "host \<Rightarrow> Ip6Address \<Rightarrow> Ip6Address \<Rightarrow> MifIndex \<Rightarrow> MulticastRoutingManager
     \<Rightarrow> otbrError \<times> MulticastRoutingManager" where
  "AddMulticastForwardingCache h aSrcAddr aGroupAddr aIif s =
     (if \<not> (aIif = kMifIndexThread \<or> aIif = kMifIndexBackbone)
      then (OTBR_ERROR_INVALID_ARGS, s)
      else
        let s1 = ExpireMulticastForwardingCache h s;
            forwardMif =
              (if aIif = kMifIndexBackbone
               then (if aGroupAddr \<in> mListenerSet s1 then kMifIndexThread else kMifIndexNone)
               else (if GetScope (big_endian h) aGroupAddr > kRealmLocalScope
                     then kMifIndexBackbone else kMifIndexNone));
            ctl = \<lparr>mf6cc_origin = aSrcAddr, mf6cc_mcastgrp = aGroupAddr, mf6cc_parent = aIif,
                   mf6cc_ifset = (if forwardMif \<noteq> kMifIndexNone then {forwardMif} else {})\<rparr>;
            fd = mMulticastRouterSock s1;
            s2 = issue (Setsockopt fd (MRT6_ADD_MFC ctl)) s1
        in if \<not> 0 = fst (sys_setsockopt h fd (MRT6_ADD_MFC ctl)) then (OTBR_ERROR_ERRNO, s2)
           else
             (case MulticastRouteInfo_new h aIif forwardMif s2 of (info, s3) \<Rightarrow>
                (OTBR_ERROR_NONE,
                 s3\<lparr>mMulticastForwardingCache :=
                      mfc_assign \<lparr>mSrcAddr = aSrcAddr, mGroupAddr = aGroupAddr\<rparr> info
                        (mMulticastForwardingCache s3)\<rparr>)))"

subsection \<open>Listener registrations\<close>

text \<open>The body of the loop of \<^verbatim>\<open>UnblockInboundMulticastForwardingCache\<close>.\<close>

definition unblock_entry ::
  "host \<Rightarrow> Ip6Address \<Rightarrow> MulticastRoute \<times> MulticastRouteInfo \<Rightarrow> MulticastRoutingManager
     \<Rightarrow> MulticastRoutingManager" where
  "unblock_entry h aGroupAddr e s =
     (case e of (route, routeInfo) \<Rightarrow>
        if mIif routeInfo \<noteq> kMifIndexBackbone \<or> mOif routeInfo = kMifIndexThread
           \<or> Ip6Address_neq (mGroupAddr route) aGroupAddr
        then s
        else
          let fd = mMulticastRouterSock s;
              ctl = \<lparr>mf6cc_origin = mSrcAddr route, mf6cc_mcastgrp = aGroupAddr,
                     mf6cc_parent = kMifIndexBackbone, mf6cc_ifset = {kMifIndexThread}\<rparr>;
              s1 = issue (Setsockopt fd (MRT6_ADD_MFC ctl)) s
          in if 0 = fst (sys_setsockopt h fd (MRT6_ADD_MFC ctl))
             then
               (case MulticastRouteInfo_new h (mIif routeInfo) kMifIndexThread s1 of (info, s2) \<Rightarrow>
                  s2\<lparr>mMulticastForwardingCache :=
                       mfc_assign route info (mMulticastForwardingCache s2)\<rparr>)
             else s1)"

fun unblock_loop ::
  "host \<Rightarrow> Ip6Address \<Rightarrow> mfc_map \<Rightarrow> MulticastRoutingManager \<Rightarrow> MulticastRoutingManager" where
  "unblock_loop h aGroupAddr [] s = s"
| "unblock_loop h aGroupAddr (e # es) s =
     unblock_loop h aGroupAddr es (unblock_entry h aGroupAddr e s)"

definition UnblockInboundMulticastForwardingCache ::
  "host \<Rightarrow> Ip6Address \<Rightarrow> MulticastRoutingManager \<Rightarrow> MulticastRoutingManager" where
  "UnblockInboundMulticastForwardingCache h aGroupAddr s =
     unblock_loop h aGroupAddr (mMulticastForwardingCache s) s"

text \<open>The body of the loop of \<^verbatim>\<open>RemoveInboundMulticastForwardingCache\<close>.\<close>

definition remove_entry ::
  "host \<Rightarrow> Ip6Address \<Rightarrow> MulticastRoute \<times> MulticastRouteInfo \<Rightarrow> MulticastRoutingManager
     \<Rightarrow> MulticastRoutingManager" where
  "remove_entry h aGroupAddr e s =
     (case e of (route, routeInfo) \<Rightarrow>
        if mIif routeInfo = kMifIndexBackbone \<and> Ip6Address_eq (mGroupAddr route) aGroupAddr
        then
          (let fd = mMulticastRouterSock s;
               ctl = \<lparr>mf6cc_origin = mSrcAddr route, mf6cc_mcastgrp = aGroupAddr,
                      mf6cc_parent = kMifIndexBackbone, mf6cc_ifset = {}\<rparr>;
               s1 = issue (Setsockopt fd (MRT6_DEL_MFC ctl)) s
           in case sys_setsockopt h fd (MRT6_DEL_MFC ctl) of (ret, errno) \<Rightarrow>
                if ret = 0 \<or> errno = ENOENT
                then s1\<lparr>mMulticastForwardingCache :=
                          mfc_erase route (mMulticastForwardingCache s1)\<rparr>
                else s1)
        else s)"

fun remove_loop ::
  "host \<Rightarrow> Ip6Address \<Rightarrow> mfc_map \<Rightarrow> MulticastRoutingManager \<Rightarrow> MulticastRoutingManager" where
  "remove_loop h aGroupAddr [] s = s"
| "remove_loop h aGroupAddr (e # es) s =
     remove_loop h aGroupAddr es (remove_entry h aGroupAddr e s)"

definition RemoveInboundMulticastForwardingCache ::
  "host \<Rightarrow> Ip6Address \<Rightarrow> MulticastRoutingManager \<Rightarrow> MulticastRoutingManager" where
  "RemoveInboundMulticastForwardingCache h aGroupAddr s =
     (remove_loop h aGroupAddr (mMulticastForwardingCache s) s)\<lparr>mMulticastForwardingCache := []\<rparr>"

text \<open>
  \<^verbatim>\<open>Add\<close> and \<^verbatim>\<open>Remove\<close>; \<open>None\<close> is the abort of a failed \<^verbatim>\<open>assert\<close>.
\<close>

definition Add ::
  "host \<Rightarrow> Ip6Address \<Rightarrow> MulticastRoutingManager \<Rightarrow> MulticastRoutingManager option" where
  "Add h aAddress s =
     (if \<not> aAddress \<notin> mListenerSet s then None
      else
        let s1 = s\<lparr>mListenerSet := insert aAddress (mListenerSet s)\<rparr>
        in if \<not> IsEnabled s1 then Some s1
           else Some (UnblockInboundMulticastForwardingCache h aAddress s1))"

definition Remove ::
  "host \<Rightarrow> Ip6Address \<Rightarrow> MulticastRoutingManager \<Rightarrow> MulticastRoutingManager option" where
  "Remove h aAddress s =
     (if \<not> aAddress \<in> mListenerSet s then None
      else
        let s1 = s\<lparr>mListenerSet := mListenerSet s - {aAddress}\<rparr>
        in if \<not> IsEnabled s1 then Some s1
           else Some (RemoveInboundMulticastForwardingCache h aAddress s1))"

subsection \<open>Concrete addresses, hosts and states\<close>

text \<open>The addresses of the end-to-end scenarios, a host on which every call succeeds, and
  the states used to evaluate the functions.\<close>

definition ip6_fd00_1 :: Ip6Address where
  "ip6_fd00_1 = [0xfd, 0, 0, 0, 0, 0, 0, 0, 0, 0, 0, 0, 0, 0, 0, 1]"

definition ip6_ff0e_1 :: Ip6Address where
  "ip6_ff0e_1 = [0xff, 0x0e, 0, 0, 0, 0, 0, 0, 0, 0, 0, 0, 0, 0, 0, 1]"

definition ip6_ff03_fc :: Ip6Address where
  "ip6_ff03_fc = [0xff, 0x03, 0, 0, 0, 0, 0, 0, 0, 0, 0, 0, 0, 0, 0, 0xfc]"

definition ip6_ff05_abcd :: Ip6Address where
  "ip6_ff05_abcd = [0xff, 0x05, 0, 0, 0, 0, 0, 0, 0, 0, 0, 0, 0, 0, 0xab, 0xcd]"

definition ip6_ff05_beef :: Ip6Address where
  "ip6_ff05_beef = [0xff, 0x05, 0, 0, 0, 0, 0, 0, 0, 0, 0, 0, 0, 0, 0xbe, 0xef]"

definition ip6_2001_db8_1 :: Ip6Address where
  "ip6_2001_db8_1 = [0x20, 0x01, 0x0d, 0xb8, 0, 0, 0, 0, 0, 0, 0, 0, 0, 0, 0, 1]"

definition host_ok :: host where
  "host_ok =
     \<lparr>big_endian = False, ThreadIfName = ''wpan0'', BackboneIfName = ''eth0'',
      sys_socket = 7,
      sys_setsockopt = (\<lambda>fd opt. (0, 0)),
      sys_if_nametoindex = (\<lambda>name. if name = ''wpan0'' then 3 else if name = ''eth0'' then 2 else 0),
      sys_ioctl = (\<lambda>fd src grp. (0, \<lparr>pktcnt = 150, bytecnt = 9000, wrong_if = 0\<rparr>)),
      sys_clock = (\<lambda>n. 301000000000 + int n)\<rparr>"

text \<open>An enabled manager: socket 7, no listener, an empty cache.\<close>

definition mrm_enabled :: MulticastRoutingManager where
  "mrm_enabled = MulticastRoutingManager_new\<lparr>mMulticastRouterSock := 7\<rparr>"

text \<open>A host on which the ICMPv6 filter cannot be installed.\<close>

definition host_filter_fails :: host where
  "host_filter_fails =
     host_ok\<lparr>sys_setsockopt :=
       (\<lambda>fd opt. if opt = ICMP6_FILTER_BLOCKALL then (-1, 1) else (0, 0))\<rparr>"

text \<open>The manager after \<^verbatim>\<open>Enable\<close> and one upcall from Thread for a global group
  (scenario S1).\<close>

definition mrm_after_upcall :: MulticastRoutingManager where
  "mrm_after_upcall =
     snd (AddMulticastForwardingCache host_ok ip6_fd00_1 ip6_ff0e_1 kMifIndexThread
            (Enable host_ok MulticastRoutingManager_new))"

subsection \<open>Notions used in the statements\<close>

text \<open>
  \<open>extends s s'\<close>: from \<open>s\<close> to \<open>s'\<close> the socket and the listener set are the same, and the
  trace of system calls and the count of clock readings have only grown.
  \<open>issued_since s s'\<close> are the system calls made from \<open>s\<close> to \<open>s'\<close>.
\<close>

definition extends :: "MulticastRoutingManager \<Rightarrow> MulticastRoutingManager \<Rightarrow> bool" where
  "extends s s' \<longleftrightarrow>
     mMulticastRouterSock s' = mMulticastRouterSock s \<and> mListenerSet s' = mListenerSet s
     \<and> clock_reads s \<le> clock_reads s' \<and> (\<exists>ys. syscalls s' = syscalls s @ ys)"

definition issued_since ::
  "MulticastRoutingManager \<Rightarrow> MulticastRoutingManager \<Rightarrow> syscall list" where
  "issued_since s s' = drop (length (syscalls s)) (syscalls s')"

text \<open>An enabled manager whose only entry was last used at time 0 (scenario S6), and a
  host on which the counter query fails.\<close>

definition mrm_stale :: "64 word \<Rightarrow> MulticastRoutingManager" where
  "mrm_stale n =
     \<lparr>mListenerSet = {ip6_ff05_abcd}, mMulticastRouterSock = 7,
      mMulticastForwardingCache =
        [(\<lparr>mSrcAddr = ip6_2001_db8_1, mGroupAddr = ip6_ff05_abcd\<rparr>,
          \<lparr>mLastUseTime = 0, mValidPktCnt = n, mOif = 0, mIif = 1\<rparr>)],
      syscalls = [], clock_reads = 0\<rparr>"

definition host_query_fails :: host where
  "host_query_fails =
     host_ok\<lparr>sys_ioctl := (\<lambda>fd src grp. (-1, \<lparr>pktcnt = 0, bytecnt = 0, wrong_if = 0\<rparr>))\<rparr>"

text \<open>
  The entries that \<^verbatim>\<open>UnblockInboundMulticastForwardingCache\<close> acts on for a group, and the
  system call it makes for such an entry.
\<close>

definition unblock_match :: "Ip6Address \<Rightarrow> MulticastRoute \<Rightarrow> MulticastRouteInfo \<Rightarrow> bool" where
  "unblock_match g route info \<longleftrightarrow>
     mIif info = kMifIndexBackbone \<and> mOif info \<noteq> kMifIndexThread \<and> mGroupAddr route = g"

definition unblock_call :: "int \<Rightarrow> Ip6Address \<Rightarrow> MulticastRoute \<Rightarrow> syscall" where
  "unblock_call fd g route =
     Setsockopt fd (MRT6_ADD_MFC \<lparr>mf6cc_origin = mSrcAddr route, mf6cc_mcastgrp = g,
                       mf6cc_parent = kMifIndexBackbone, mf6cc_ifset = {kMifIndexThread}\<rparr>)"

text \<open>
  The manager after \<^verbatim>\<open>Enable\<close> and one upcall from Backbone for a group without listener
  (scenario S4), a host on which \<^verbatim>\<open>MRT6_ADD_MFC\<close> fails, and the manager after
  \<^verbatim>\<open>Enable\<close>, \<^verbatim>\<open>Add\<close> of a group, an upcall from Backbone for it and an upcall from
  Thread for a global group.
\<close>

definition mrm_blocked :: MulticastRoutingManager where
  "mrm_blocked =
     snd (AddMulticastForwardingCache host_ok ip6_2001_db8_1 ip6_ff05_beef kMifIndexBackbone
            (Enable host_ok MulticastRoutingManager_new))"

definition host_add_mfc_fails :: host where
  "host_add_mfc_fails =
     host_ok\<lparr>sys_setsockopt :=
       (\<lambda>fd opt. case opt of MRT6_ADD_MFC ctl \<Rightarrow> (-1, 12) | _ \<Rightarrow> (0, 0))\<rparr>"

definition mrm_two :: MulticastRoutingManager where
  "mrm_two =
     snd (AddMulticastForwardingCache host_ok ip6_fd00_1 ip6_ff0e_1 kMifIndexThread
       (snd (AddMulticastForwardingCache host_ok ip6_2001_db8_1 ip6_ff05_abcd kMifIndexBackbone
         (case Add host_ok ip6_ff05_abcd (Enable host_ok MulticastRoutingManager_new) of
            Some s \<Rightarrow> s | None \<Rightarrow> MulticastRoutingManager_new))))"

section \<open>Properties\<close>

subsection \<open>The order of routes and the map operations\<close>

lemma route_less_iff:
  "route_less a b \<longleftrightarrow>
     mGroupAddr a < mGroupAddr b \<or> (mGroupAddr a = mGroupAddr b \<and> mSrcAddr a < mSrcAddr b)"
  by (auto simp: route_less_def Ip6Address_less_def Ip6Address_neq_def)

lemma route_equiv_iff: "route_equiv (a :: MulticastRoute) b \<longleftrightarrow> a = b"
  by (cases a; cases b) (auto simp: route_equiv_def route_less_iff)

lemma route_less_irrefl: "\<not> route_less a a"
  by (simp add: route_less_iff)

lemma route_less_trans: "route_less a b \<Longrightarrow> route_less b c \<Longrightarrow> route_less a c"
  by (auto simp: route_less_iff)

lemma route_less_linear: "route_less a b \<or> a = b \<or> route_less (b :: MulticastRoute) a"
  using route_equiv_iff [of a b] by (auto simp: route_equiv_def)

lemma mfc_find_map_of: "mfc_find r m = map_of m r"
  by (induction m) (auto simp: route_equiv_iff)

lemma mfc_sorted_distinct: "mfc_sorted m \<Longrightarrow> distinct (map fst m)"
  by (induction m) (auto simp: route_less_irrefl)

lemma map_of_mfc_assign: "map_of (mfc_assign r v m) = (map_of m)(r \<mapsto> v)"
proof (induction m)
  case Nil
  show ?case by simp
next
  case (Cons e m)
  obtain k w where e: "e = (k, w)" by (cases e)
  show ?case
  proof (cases "route_less r k")
    case True
    then show ?thesis by (auto simp: e fun_eq_iff)
  next
    case False
    show ?thesis
    proof (cases "route_less k r")
      case True
      then have "k \<noteq> r" using route_less_irrefl by auto
      then show ?thesis using True False Cons.IH by (auto simp: e fun_upd_twist)
    next
      case False
      with \<open>\<not> route_less r k\<close> have "k = r" using route_less_linear [of r k] by auto
      then show ?thesis using False \<open>\<not> route_less r k\<close> by (auto simp: e fun_eq_iff)
    qed
  qed
qed

lemma set_mfc_assign: "fst ` set (mfc_assign r v m) = insert r (fst ` set m)"
  using map_of_mfc_assign [of r v m]
  by (metis dom_fun_upd dom_map_of_conv_image_fst option.distinct(1))

lemma sorted_mfc_assign: "mfc_sorted m \<Longrightarrow> mfc_sorted (mfc_assign r v m)"
proof (induction m)
  case Nil
  show ?case by simp
next
  case (Cons e m)
  obtain k w where e: "e = (k, w)" by (cases e)
  from Cons.prems have sm: "mfc_sorted m" and lt: "\<forall>x \<in> set m. route_less k (fst x)"
    by (auto simp: e)
  show ?case
  proof (cases "route_less r k")
    case True
    then have "\<forall>x \<in> set m. route_less r (fst x)" using lt route_less_trans by blast
    then show ?thesis using True Cons.prems by (auto simp: e)
  next
    case False
    show ?thesis
    proof (cases "route_less k r")
      case True
      have "\<forall>x \<in> fst ` set (mfc_assign r v m). route_less k x"
        using lt True by (auto simp: set_mfc_assign)
      then show ?thesis using True False Cons.IH [OF sm] by (auto simp: e)
    next
      case False
      then show ?thesis using \<open>\<not> route_less r k\<close> Cons.prems by (auto simp: e)
    qed
  qed
qed

lemma set_mfc_erase: "set (mfc_erase r m) \<subseteq> set m"
  by (induction m) (auto split: if_splits)

lemma sorted_mfc_erase: "mfc_sorted m \<Longrightarrow> mfc_sorted (mfc_erase r m)"
proof (induction m)
  case Nil
  show ?case by simp
next
  case (Cons e m)
  obtain k w where e: "e = (k, w)" by (cases e)
  show ?case using Cons set_mfc_erase [of r m] by (auto simp: e)
qed

lemma map_of_mfc_erase: "mfc_sorted m \<Longrightarrow> map_of (mfc_erase r m) = (map_of m)(r := None)"
proof (induction m)
  case Nil
  show ?case by simp
next
  case (Cons e m)
  obtain k w where e: "e = (k, w)" by (cases e)
  from Cons.prems have sm: "mfc_sorted m" and lt: "\<forall>x \<in> set m. route_less k (fst x)"
    by (auto simp: e)
  show ?case
  proof (cases "r = k")
    case True
    have "k \<notin> fst ` set m" using lt route_less_irrefl by auto
    then have "map_of m k = None" by (simp add: map_of_eq_None_iff)
    then show ?thesis using True by (auto simp: e route_equiv_iff)
  next
    case False
    then show ?thesis using Cons.IH [OF sm] by (auto simp: e route_equiv_iff)
  qed
qed

subsection \<open>The order of routes\<close>

text \<open>
  C9. The order on \<^verbatim>\<open>MulticastRoute\<close> is a strict total order: of \<open>a < b\<close>, \<open>b < a\<close> and
  \<open>a = b\<close> exactly one holds, the order is irreflexive and transitive, and \<open>a < b\<close> is
  decided by the lexicographic order of the bytes of the group addresses first and, when
  the groups are equal, by that of the source addresses.
\<close>

theorem route_less_strict_total_order:
  fixes a b c :: MulticastRoute
  shows "(route_less a b \<longleftrightarrow>
            mGroupAddr a < mGroupAddr b
            \<or> (mGroupAddr a = mGroupAddr b \<and> mSrcAddr a < mSrcAddr b))
       \<and> ((route_less a b \<and> \<not> route_less b a \<and> a \<noteq> b)
          \<or> (\<not> route_less a b \<and> route_less b a \<and> a \<noteq> b)
          \<or> (\<not> route_less a b \<and> \<not> route_less b a \<and> a = b))
       \<and> \<not> route_less a a
       \<and> (route_less a b \<and> route_less b c \<longrightarrow> route_less a c)"
proof -
  have tri: "(route_less a b \<and> \<not> route_less b a \<and> a \<noteq> b)
          \<or> (\<not> route_less a b \<and> route_less b a \<and> a \<noteq> b)
          \<or> (\<not> route_less a b \<and> \<not> route_less b a \<and> a = b)"
    by (cases a; cases b) (auto simp: route_less_iff)
  have trans: "route_less a b \<and> route_less b c \<longrightarrow> route_less a c"
    by (auto simp: route_less_iff)
  show ?thesis using tri trans by (simp add: route_less_iff)
qed

theorem route_less_strict_total_order_witness:
  "route_less \<lparr>mSrcAddr = ip6_fd00_1, mGroupAddr = ip6_ff05_beef\<rparr>
              \<lparr>mSrcAddr = ip6_2001_db8_1, mGroupAddr = ip6_ff0e_1\<rparr>
   \<and> route_less \<lparr>mSrcAddr = ip6_2001_db8_1, mGroupAddr = ip6_ff0e_1\<rparr>
                \<lparr>mSrcAddr = ip6_fd00_1, mGroupAddr = ip6_ff0e_1\<rparr>
   \<and> route_less \<lparr>mSrcAddr = ip6_fd00_1, mGroupAddr = ip6_ff05_beef\<rparr>
                \<lparr>mSrcAddr = ip6_fd00_1, mGroupAddr = ip6_ff0e_1\<rparr>
   \<and> \<not> route_less \<lparr>mSrcAddr = ip6_2001_db8_1, mGroupAddr = ip6_ff0e_1\<rparr>
                  \<lparr>mSrcAddr = ip6_fd00_1, mGroupAddr = ip6_ff05_beef\<rparr>"
  using route_less_strict_total_order
    [of "\<lparr>mSrcAddr = ip6_fd00_1, mGroupAddr = ip6_ff05_beef\<rparr>"
        "\<lparr>mSrcAddr = ip6_2001_db8_1, mGroupAddr = ip6_ff0e_1\<rparr>"
        "\<lparr>mSrcAddr = ip6_fd00_1, mGroupAddr = ip6_ff0e_1\<rparr>"]
  by (simp add: route_less_def Ip6Address_less_def Ip6Address_neq_def
        ip6_fd00_1_def ip6_ff05_beef_def ip6_2001_db8_1_def ip6_ff0e_1_def)

subsection \<open>Enabling and disabling\<close>

text \<open>
  C10. \<^verbatim>\<open>Enable\<close> on a manager that is already enabled changes nothing: the socket, the
  listener set and the cache are as before, and no system call is made.
\<close>

theorem Enable_when_enabled_noop:
  "IsEnabled s \<Longrightarrow> Enable h s = s"
  by (simp add: Enable_def)

theorem Enable_when_enabled_noop_witness:
  "IsEnabled mrm_enabled \<and> Enable host_ok mrm_enabled = mrm_enabled"
proof -
  have en: "IsEnabled mrm_enabled"
    by (simp add: IsEnabled_def mrm_enabled_def MulticastRoutingManager_new_def)
  show ?thesis using en Enable_when_enabled_noop [OF en, of host_ok] by simp
qed

subsection \<open>Upcalls\<close>

text \<open>
  C7. For an incoming interface that is neither Thread nor Backbone,
  \<^verbatim>\<open>AddMulticastForwardingCache\<close> returns \<^verbatim>\<open>OTBR_ERROR_INVALID_ARGS\<close> and leaves the manager
  as it was: no expiry pass, no system call, no change of the cache.
\<close>

theorem AddMulticastForwardingCache_invalid_iif:
  "aIif \<noteq> kMifIndexThread \<Longrightarrow> aIif \<noteq> kMifIndexBackbone \<Longrightarrow>
     AddMulticastForwardingCache h aSrcAddr aGroupAddr aIif s = (OTBR_ERROR_INVALID_ARGS, s)"
  by (simp add: AddMulticastForwardingCache_def)

theorem AddMulticastForwardingCache_invalid_iif_witness:
  "(2 :: MifIndex) \<noteq> kMifIndexThread \<and> (2 :: MifIndex) \<noteq> kMifIndexBackbone
   \<and> AddMulticastForwardingCache host_ok ip6_fd00_1 ip6_ff0e_1 2 mrm_enabled
       = (OTBR_ERROR_INVALID_ARGS, mrm_enabled)"
proof -
  have a: "(2 :: MifIndex) \<noteq> kMifIndexThread" by (simp add: kMifIndexThread_def)
  have b: "(2 :: MifIndex) \<noteq> kMifIndexBackbone" by (simp add: kMifIndexBackbone_def)
  show ?thesis
    using a b AddMulticastForwardingCache_invalid_iif [OF a b, of host_ok ip6_fd00_1 ip6_ff0e_1 mrm_enabled]
    by simp
qed

subsection \<open>Enabling: set-up of the router socket\<close>

lemmas init_defs = InitMulticastRouterSock_def init_exit_def add_mif_def
  FinalizeMulticastRouterSock_def issue_def Let_def IsEnabled_def Enable_def word_gt_0

lemma Finalize_cache:
  "mMulticastForwardingCache (FinalizeMulticastRouterSock s) = mMulticastForwardingCache s"
  by (simp add: FinalizeMulticastRouterSock_def issue_def)

lemma add_mif_fields:
  "mMulticastForwardingCache (snd (add_mif h i n s)) = mMulticastForwardingCache s"
  "mMulticastRouterSock (snd (add_mif h i n s)) = mMulticastRouterSock s"
  by (simp_all add: add_mif_def issue_def Let_def)

lemma init_exit_cache:
  "mMulticastForwardingCache (snd (init_exit e s)) = mMulticastForwardingCache s"
  by (simp add: init_exit_def Finalize_cache)

lemma init_exit_sock:
  "mMulticastRouterSock (snd (init_exit e s)) =
     (if e = OTBR_ERROR_NONE then mMulticastRouterSock s else -1)"
  by (simp add: init_exit_def FinalizeMulticastRouterSock_def issue_def)

lemma init_exit_fst: "fst (init_exit e s) = e"
  by (simp add: init_exit_def)

lemma Init_cache:
  "mMulticastForwardingCache (snd (InitMulticastRouterSock h s)) = mMulticastForwardingCache s"
  by (simp add: InitMulticastRouterSock_def Let_def split_beta init_exit_cache add_mif_fields
        issue_def)

lemma Init_success_sock:
  assumes "mMulticastRouterSock s = -1"
    and "fst (InitMulticastRouterSock h s) = OTBR_ERROR_NONE"
  shows "mMulticastRouterSock (snd (InitMulticastRouterSock h s)) = sys_socket h"
  using assms
  by (simp add: InitMulticastRouterSock_def Let_def split_beta init_exit_sock init_exit_fst
        add_mif_fields issue_def split: if_splits)

lemma Init_sock_cases:
  "mMulticastRouterSock s = -1 \<Longrightarrow>
     mMulticastRouterSock (snd (InitMulticastRouterSock h s)) = sys_socket h
     \<or> mMulticastRouterSock (snd (InitMulticastRouterSock h s)) = -1"
  by (simp add: InitMulticastRouterSock_def Let_def split_beta init_exit_sock add_mif_fields
        issue_def)

lemma Enable_cache: "mMulticastForwardingCache (Enable h s) = mMulticastForwardingCache s"
  by (simp add: Enable_def Init_cache)

lemma Disable_cache: "mMulticastForwardingCache (Disable s) = mMulticastForwardingCache s"
  by (simp add: Disable_def Finalize_cache)

lemma Disable_sock:
  "mMulticastRouterSock (Disable s) = (if IsEnabled s then -1 else mMulticastRouterSock s)"
  by (simp add: Disable_def FinalizeMulticastRouterSock_def issue_def IsEnabled_def)

lemma Enable_host_ok:
  "Enable host_ok MulticastRoutingManager_new =
     \<lparr>mListenerSet = {}, mMulticastRouterSock = 7, mMulticastForwardingCache = [],
      syscalls = [Socket, Setsockopt 7 MRT6_INIT, Setsockopt 7 ICMP6_FILTER_BLOCKALL,
        If_nametoindex ''wpan0'',
        Setsockopt 7 (MRT6_ADD_MIF \<lparr>mif6c_mifi = 0, mif6c_flags = 0, vifc_threshold = 1,
                     mif6c_pifi = 3, vifc_rate_limit = 0\<rparr>),
        If_nametoindex ''eth0'',
        Setsockopt 7 (MRT6_ADD_MIF \<lparr>mif6c_mifi = 1, mif6c_flags = 0, vifc_threshold = 1,
                     mif6c_pifi = 2, vifc_rate_limit = 0\<rparr>)],
      clock_reads = 0\<rparr>"
  by (simp add: init_defs host_ok_def MulticastRoutingManager_new_def
        kMifIndexThread_def kMifIndexBackbone_def)

lemma GetScope_ff0e_1: "GetScope be ip6_ff0e_1 = 0xe"
  by (simp add: GetScope_def IsMulticast_def m8_def ip6_ff0e_1_def)

lemma mrm_after_upcall_eq:
  "mrm_after_upcall =
     \<lparr>mListenerSet = {}, mMulticastRouterSock = 7,
      mMulticastForwardingCache =
        [(\<lparr>mSrcAddr = ip6_fd00_1, mGroupAddr = ip6_ff0e_1\<rparr>,
          \<lparr>mLastUseTime = 301000000001, mValidPktCnt = 0, mOif = 1, mIif = 0\<rparr>)],
      syscalls = [Socket, Setsockopt 7 MRT6_INIT, Setsockopt 7 ICMP6_FILTER_BLOCKALL,
        If_nametoindex ''wpan0'',
        Setsockopt 7 (MRT6_ADD_MIF \<lparr>mif6c_mifi = 0, mif6c_flags = 0, vifc_threshold = 1,
                     mif6c_pifi = 3, vifc_rate_limit = 0\<rparr>),
        If_nametoindex ''eth0'',
        Setsockopt 7 (MRT6_ADD_MIF \<lparr>mif6c_mifi = 1, mif6c_flags = 0, vifc_threshold = 1,
                     mif6c_pifi = 2, vifc_rate_limit = 0\<rparr>),
        Setsockopt 7 (MRT6_ADD_MFC \<lparr>mf6cc_origin = ip6_fd00_1, mf6cc_mcastgrp = ip6_ff0e_1,
                     mf6cc_parent = 0, mf6cc_ifset = {1}\<rparr>)],
      clock_reads = 2\<rparr>"
  unfolding mrm_after_upcall_def Enable_host_ok
  by (simp add: AddMulticastForwardingCache_def ExpireMulticastForwardingCache_def Clock_now_def
        MulticastRouteInfo_new_def issue_def Let_def GetScope_ff0e_1 kRealmLocalScope_def
        kMifIndexThread_def kMifIndexBackbone_def kMifIndexNone_def host_ok_def)

text \<open>
  C6. On a disabled manager (socket \<open>-1\<close>), if any step of the enable sequence fails
  (\<^verbatim>\<open>socket\<close>, \<^verbatim>\<open>MRT6_INIT\<close>, the ICMPv6 block-all filter, the index look-up of the Thread
  or of the Backbone interface, \<^verbatim>\<open>MRT6_ADD_MIF\<close> for either), then
  \<^verbatim>\<open>InitMulticastRouterSock\<close> returns \<^verbatim>\<open>OTBR_ERROR_ERRNO\<close>, the descriptor is \<open>-1\<close> again, the
  socket that was opened has been closed by the last system call (when \<^verbatim>\<open>socket\<close>
  itself failed there is none to close), and the manager stays disabled.
\<close>

theorem InitMulticastRouterSock_rollback:
  assumes disabled: "mMulticastRouterSock s = -1"
    and fails:
      "sys_socket h = -1
       \<or> fst (sys_setsockopt h (sys_socket h) MRT6_INIT) \<noteq> 0
       \<or> fst (sys_setsockopt h (sys_socket h) ICMP6_FILTER_BLOCKALL) \<noteq> 0
       \<or> ucast (sys_if_nametoindex h (ThreadIfName h)) = (0 :: 16 word)
       \<or> fst (sys_setsockopt h (sys_socket h)
                (MRT6_ADD_MIF \<lparr>mif6c_mifi = kMifIndexThread, mif6c_flags = 0, vifc_threshold = 1,
                     mif6c_pifi = ucast (sys_if_nametoindex h (ThreadIfName h)),
                     vifc_rate_limit = 0\<rparr>)) \<noteq> 0
       \<or> ucast (sys_if_nametoindex h (BackboneIfName h)) = (0 :: 16 word)
       \<or> fst (sys_setsockopt h (sys_socket h)
                (MRT6_ADD_MIF \<lparr>mif6c_mifi = kMifIndexBackbone, mif6c_flags = 0, vifc_threshold = 1,
                     mif6c_pifi = ucast (sys_if_nametoindex h (BackboneIfName h)),
                     vifc_rate_limit = 0\<rparr>)) \<noteq> 0"
  shows "fst (InitMulticastRouterSock h s) = OTBR_ERROR_ERRNO
       \<and> mMulticastRouterSock (snd (InitMulticastRouterSock h s)) = -1
       \<and> (if sys_socket h = -1
          then syscalls (snd (InitMulticastRouterSock h s)) = syscalls s @ [Socket]
          else last (syscalls (snd (InitMulticastRouterSock h s))) = Close (sys_socket h))
       \<and> mMulticastForwardingCache (snd (InitMulticastRouterSock h s)) = mMulticastForwardingCache s
       \<and> mListenerSet (snd (InitMulticastRouterSock h s)) = mListenerSet s
       \<and> Enable h s = snd (InitMulticastRouterSock h s)
       \<and> \<not> IsEnabled (Enable h s)"
proof (cases "sys_socket h = -1")
  case True
  then show ?thesis using disabled by (simp add: init_defs)
next
  case sock: False
  show ?thesis
  proof (cases "fst (sys_setsockopt h (sys_socket h) MRT6_INIT) = 0")
    case False
    then show ?thesis using disabled sock by (simp add: init_defs)
  next
    case init: True
    show ?thesis
    proof (cases "fst (sys_setsockopt h (sys_socket h) ICMP6_FILTER_BLOCKALL) = 0")
      case False
      then show ?thesis using disabled sock init by (simp add: init_defs)
    next
      case filter: True
      show ?thesis
      proof (cases "ucast (sys_if_nametoindex h (ThreadIfName h)) = (0 :: 16 word)")
        case True
        then show ?thesis using disabled sock init filter by (simp add: init_defs)
      next
        case tidx: False
        show ?thesis
        proof (cases "fst (sys_setsockopt h (sys_socket h)
                (MRT6_ADD_MIF \<lparr>mif6c_mifi = kMifIndexThread, mif6c_flags = 0, vifc_threshold = 1,
                     mif6c_pifi = ucast (sys_if_nametoindex h (ThreadIfName h)),
                     vifc_rate_limit = 0\<rparr>)) = 0")
          case False
          then show ?thesis using disabled sock init filter tidx by (simp add: init_defs)
        next
          case tmif: True
          show ?thesis
          proof (cases "ucast (sys_if_nametoindex h (BackboneIfName h)) = (0 :: 16 word)")
            case True
            then show ?thesis using disabled sock init filter tidx tmif by (simp add: init_defs)
          next
            case bidx: False
            with fails sock init filter tidx tmif
            have "fst (sys_setsockopt h (sys_socket h)
                (MRT6_ADD_MIF \<lparr>mif6c_mifi = kMifIndexBackbone, mif6c_flags = 0, vifc_threshold = 1,
                     mif6c_pifi = ucast (sys_if_nametoindex h (BackboneIfName h)),
                     vifc_rate_limit = 0\<rparr>)) \<noteq> 0" by simp
            then show ?thesis using disabled sock init filter tidx tmif bidx
              by (simp add: init_defs)
          qed
        qed
      qed
    qed
  qed
qed

theorem InitMulticastRouterSock_rollback_witness:
  "mMulticastRouterSock MulticastRoutingManager_new = -1
   \<and> fst (sys_setsockopt host_filter_fails (sys_socket host_filter_fails) ICMP6_FILTER_BLOCKALL) \<noteq> 0
   \<and> InitMulticastRouterSock host_filter_fails MulticastRoutingManager_new =
       (OTBR_ERROR_ERRNO,
        MulticastRoutingManager_new\<lparr>syscalls :=
          [Socket, Setsockopt 7 MRT6_INIT, Setsockopt 7 ICMP6_FILTER_BLOCKALL, Close 7]\<rparr>)
   \<and> \<not> IsEnabled (Enable host_filter_fails MulticastRoutingManager_new)"
proof -
  have d: "mMulticastRouterSock MulticastRoutingManager_new = -1"
    by (simp add: MulticastRoutingManager_new_def)
  have f: "fst (sys_setsockopt host_filter_fails (sys_socket host_filter_fails)
             ICMP6_FILTER_BLOCKALL) \<noteq> 0"
    by (simp add: host_filter_fails_def)
  have e: "InitMulticastRouterSock host_filter_fails MulticastRoutingManager_new =
       (OTBR_ERROR_ERRNO,
        MulticastRoutingManager_new\<lparr>syscalls :=
          [Socket, Setsockopt 7 MRT6_INIT, Setsockopt 7 ICMP6_FILTER_BLOCKALL, Close 7]\<rparr>)"
    by (simp add: init_defs host_filter_fails_def host_ok_def MulticastRoutingManager_new_def)
  have r: "\<not> IsEnabled (Enable host_filter_fails MulticastRoutingManager_new)"
    using InitMulticastRouterSock_rollback [OF d disjI2 [OF disjI2 [OF disjI1 [OF f]]]]
    by blast
  show ?thesis using d f e r by simp
qed

subsection \<open>Disabling\<close>

text \<open>
  C1, as stated, fails: the manager that was enabled and has processed one upcall holds
  one cache entry; after \<^verbatim>\<open>Disable\<close> it is not enabled and the entry is still there.
\<close>

theorem Disable_leaves_cache_counterexample:
  "IsEnabled mrm_after_upcall
   \<and> \<not> IsEnabled (Disable mrm_after_upcall)
   \<and> mMulticastForwardingCache (Disable mrm_after_upcall) \<noteq> []"
  by (simp add: mrm_after_upcall_eq Disable_def IsEnabled_def FinalizeMulticastRouterSock_def
        issue_def)

text \<open>
  C1, amended.  \<^verbatim>\<open>Disable\<close> on an enabled manager closes the socket and sets the
  descriptor to \<open>-1\<close>, so the manager is no longer enabled, and leaves the in-memory cache
  exactly as it was.  Neither \<^verbatim>\<open>Enable\<close> nor \<^verbatim>\<open>Disable\<close> touches the cache, so the round
  trip enable, disable, enable leaves it as it was before (empty when it started empty),
  and the manager is enabled at the end when the last socket set-up succeeds.
\<close>

theorem Disable_keeps_cache:
  "(IsEnabled s \<longrightarrow>
      Disable s = s\<lparr>mMulticastRouterSock := -1,
                     syscalls := syscalls s @ [Close (mMulticastRouterSock s)]\<rparr>
      \<and> \<not> IsEnabled (Disable s)
      \<and> mMulticastForwardingCache (Disable s) = mMulticastForwardingCache s)
   \<and> mMulticastForwardingCache (Enable h' (Disable (Enable h t))) = mMulticastForwardingCache t
   \<and> (mMulticastRouterSock t = -1 \<and> -1 \<le> sys_socket h \<and> 0 \<le> sys_socket h'
        \<and> fst (InitMulticastRouterSock h' (Disable (Enable h t))) = OTBR_ERROR_NONE
      \<longrightarrow> IsEnabled (Enable h' (Disable (Enable h t))))"
proof (intro conjI impI)
  assume en: "IsEnabled s"
  then show "Disable s = s\<lparr>mMulticastRouterSock := -1,
                     syscalls := syscalls s @ [Close (mMulticastRouterSock s)]\<rparr>"
    by (simp add: Disable_def FinalizeMulticastRouterSock_def issue_def IsEnabled_def)
  from en show "\<not> IsEnabled (Disable s)"
    by (simp add: Disable_sock IsEnabled_def)
  show "mMulticastForwardingCache (Disable s) = mMulticastForwardingCache s"
    by (rule Disable_cache)
next
  show "mMulticastForwardingCache (Enable h' (Disable (Enable h t))) = mMulticastForwardingCache t"
    by (simp add: Enable_cache Disable_cache)
next
  assume a: "mMulticastRouterSock t = -1 \<and> -1 \<le> sys_socket h \<and> 0 \<le> sys_socket h'
        \<and> fst (InitMulticastRouterSock h' (Disable (Enable h t))) = OTBR_ERROR_NONE"
  have s1: "mMulticastRouterSock (Enable h t) = sys_socket h \<or> mMulticastRouterSock (Enable h t) = -1"
    using a Init_sock_cases [of t h] by (simp add: Enable_def IsEnabled_def)
  have s2: "mMulticastRouterSock (Disable (Enable h t)) = -1"
    using s1 a by (auto simp: Disable_sock IsEnabled_def)
  then have "mMulticastRouterSock (snd (InitMulticastRouterSock h' (Disable (Enable h t)))) = sys_socket h'"
    using a Init_success_sock by blast
  then show "IsEnabled (Enable h' (Disable (Enable h t)))"
    using a s2 by (simp add: Enable_def IsEnabled_def)
qed

theorem Disable_keeps_cache_witness:
  "IsEnabled mrm_after_upcall
   \<and> mMulticastForwardingCache (Disable mrm_after_upcall) = mMulticastForwardingCache mrm_after_upcall
   \<and> mMulticastRouterSock MulticastRoutingManager_new = -1
   \<and> fst (InitMulticastRouterSock host_ok (Disable (Enable host_ok MulticastRoutingManager_new)))
       = OTBR_ERROR_NONE
   \<and> IsEnabled (Enable host_ok (Disable (Enable host_ok MulticastRoutingManager_new)))
   \<and> mMulticastForwardingCache (Enable host_ok (Disable (Enable host_ok MulticastRoutingManager_new)))
       = []"
proof -
  have en: "IsEnabled mrm_after_upcall"
    by (simp add: mrm_after_upcall_eq IsEnabled_def)
  have d: "mMulticastRouterSock MulticastRoutingManager_new = -1"
    by (simp add: MulticastRoutingManager_new_def)
  have k: "-1 \<le> sys_socket host_ok \<and> 0 \<le> sys_socket host_ok"
    by (simp add: host_ok_def)
  have i: "fst (InitMulticastRouterSock host_ok (Disable (Enable host_ok MulticastRoutingManager_new)))
       = OTBR_ERROR_NONE"
    unfolding Enable_host_ok
    by (simp add: Disable_def init_defs host_ok_def kMifIndexThread_def kMifIndexBackbone_def)
  have c: "mMulticastForwardingCache MulticastRoutingManager_new = []"
    by (simp add: MulticastRoutingManager_new_def)
  show ?thesis
    using en d k i c
      Disable_keeps_cache [of mrm_after_upcall host_ok host_ok MulticastRoutingManager_new]
    by simp
qed

subsection \<open>The expiry pass\<close>

lemma mfc_subscript_present:
  "mfc_find r m = Some i \<Longrightarrow> mfc_subscript r m = (i, m)"
  by (simp add: mfc_subscript_def)

lemma mfc_subscript_sorted: "mfc_sorted m \<Longrightarrow> mfc_sorted (snd (mfc_subscript r m))"
  by (simp add: mfc_subscript_def sorted_mfc_assign split: option.splits)

lemma mfc_subscript_frame: "k \<noteq> r \<Longrightarrow> map_of (snd (mfc_subscript k m)) r = map_of m r"
  by (simp add: mfc_subscript_def map_of_mfc_assign split: option.splits)

lemma extends_refl: "extends s s"
  by (simp add: extends_def)

lemma extends_trans: "extends s s' \<Longrightarrow> extends s' s'' \<Longrightarrow> extends s s''"
  by (auto simp: extends_def)

lemma Update_extends: "extends s (snd (UpdateMulticastRouteInfo h r s))"
  by (simp add: UpdateMulticastRouteInfo_def extends_def issue_def Clock_now_def Let_def
        split: prod.splits)

lemma Update_sorted:
  "mfc_sorted (mMulticastForwardingCache s) \<Longrightarrow>
     mfc_sorted (mMulticastForwardingCache (snd (UpdateMulticastRouteInfo h r s)))"
  using mfc_subscript_sorted [of "mMulticastForwardingCache s" r]
  by (auto simp: UpdateMulticastRouteInfo_def issue_def Clock_now_def Let_def sorted_mfc_assign
        split: prod.splits)

lemma Update_frame:
  "k \<noteq> r \<Longrightarrow>
     map_of (mMulticastForwardingCache (snd (UpdateMulticastRouteInfo h k s))) r
       = map_of (mMulticastForwardingCache s) r"
  using mfc_subscript_frame [of k r "mMulticastForwardingCache s"]
  by (auto simp: UpdateMulticastRouteInfo_def issue_def Clock_now_def Let_def map_of_mfc_assign
        split: prod.splits)

lemma expire_entry_extends: "extends s (expire_entry h now e s)"
proof -
  obtain k v where e: "e = (k, v)" by (cases e)
  obtain u s1 where u: "UpdateMulticastRouteInfo h k s = (u, s1)"
    by (cases "UpdateMulticastRouteInfo h k s")
  have "extends s s1" using Update_extends [of s h k] u by simp
  then show ?thesis
    by (auto simp: expire_entry_def e u extends_def issue_def Let_def split: prod.splits)
qed

lemma expire_entry_sorted:
  assumes "mfc_sorted (mMulticastForwardingCache s)"
  shows "mfc_sorted (mMulticastForwardingCache (expire_entry h now e s))"
proof -
  obtain k v where e: "e = (k, v)" by (cases e)
  obtain u s1 where u: "UpdateMulticastRouteInfo h k s = (u, s1)"
    by (cases "UpdateMulticastRouteInfo h k s")
  have "mfc_sorted (mMulticastForwardingCache s1)" using Update_sorted [OF assms, of h k] u by simp
  then show ?thesis using assms
    by (auto simp: expire_entry_def e u issue_def Let_def sorted_mfc_erase split: prod.splits)
qed

lemma expire_entry_frame:
  assumes "mfc_sorted (mMulticastForwardingCache s)" and "k \<noteq> r"
  shows "map_of (mMulticastForwardingCache (expire_entry h now (k, v) s)) r
           = map_of (mMulticastForwardingCache s) r"
proof -
  obtain u s1 where u: "UpdateMulticastRouteInfo h k s = (u, s1)"
    by (cases "UpdateMulticastRouteInfo h k s")
  have f: "map_of (mMulticastForwardingCache s1) r = map_of (mMulticastForwardingCache s) r"
    using Update_frame [OF assms(2), of h s] u by simp
  have "mfc_sorted (mMulticastForwardingCache s1)"
    using Update_sorted [OF assms(1), of h k] u by simp
  then show ?thesis using f assms(2)
    by (auto simp: expire_entry_def u issue_def Let_def map_of_mfc_erase split: prod.splits)
qed

lemma expire_loop_extends: "extends s (expire_loop h now es s)"
proof (induction es arbitrary: s)
  case Nil
  show ?case by (simp add: extends_refl)
next
  case (Cons e es)
  show ?case using extends_trans [OF expire_entry_extends Cons.IH] by simp
qed

lemma expire_loop_sorted:
  "mfc_sorted (mMulticastForwardingCache s) \<Longrightarrow>
     mfc_sorted (mMulticastForwardingCache (expire_loop h now es s))"
  by (induction es arbitrary: s) (simp_all add: expire_entry_sorted)

lemma expire_loop_frame:
  "mfc_sorted (mMulticastForwardingCache s) \<Longrightarrow> r \<notin> fst ` set es \<Longrightarrow>
     map_of (mMulticastForwardingCache (expire_loop h now es s)) r
       = map_of (mMulticastForwardingCache s) r"
proof (induction es arbitrary: s)
  case Nil
  show ?case by simp
next
  case (Cons e es)
  obtain k v where e: "e = (k, v)" by (cases e)
  have "k \<noteq> r" using Cons.prems(2) e by auto
  then show ?case
    using Cons.IH [OF expire_entry_sorted [OF Cons.prems(1)], of h now e] Cons.prems
      expire_entry_frame [OF Cons.prems(1), of k r h now v]
    by (simp add: e)
qed

lemma expire_loop_append:
  "expire_loop h now (es @ es') s = expire_loop h now es' (expire_loop h now es s)"
  by (induction es arbitrary: s) simp_all

lemma Expire_extends: "extends s (ExpireMulticastForwardingCache h s)"
proof -
  have "extends s (snd (Clock_now h s))" by (simp add: Clock_now_def extends_def)
  then show ?thesis
    using expire_loop_extends extends_trans
    by (fastforce simp: ExpireMulticastForwardingCache_def split: prod.splits)
qed

lemma map_of_sorted_entry:
  "mfc_sorted m \<Longrightarrow> (r, i) \<in> set m \<Longrightarrow> map_of m r = Some i"
  using mfc_sorted_distinct map_of_eq_Some_iff by fastforce

lemma expire_loop_at:
  assumes srt: "mfc_sorted (mMulticastForwardingCache s)"
    and mem: "(r, i) \<in> set es"
    and dist: "distinct (map fst es)"
    and live: "map_of (mMulticastForwardingCache s) r = Some i"
  shows "\<exists>s_r. extends s s_r
           \<and> mfc_sorted (mMulticastForwardingCache s_r)
           \<and> map_of (mMulticastForwardingCache s_r) r = Some i
           \<and> extends (expire_entry h now (r, i) s_r) (expire_loop h now es s)
           \<and> map_of (mMulticastForwardingCache (expire_loop h now es s)) r
               = map_of (mMulticastForwardingCache (expire_entry h now (r, i) s_r)) r"
proof -
  from mem obtain es1 es2 where es: "es = es1 @ (r, i) # es2"
    by (meson split_list)
  from dist es have n1: "r \<notin> fst ` set es1" and n2: "r \<notin> fst ` set es2"
    by auto
  define s_r where "s_r = expire_loop h now es1 s"
  have a: "extends s s_r" unfolding s_r_def by (rule expire_loop_extends)
  have b: "mfc_sorted (mMulticastForwardingCache s_r)"
    unfolding s_r_def by (rule expire_loop_sorted [OF srt])
  have c: "map_of (mMulticastForwardingCache s_r) r = Some i"
    unfolding s_r_def using expire_loop_frame [OF srt n1] live by simp
  have fin: "expire_loop h now es s = expire_loop h now es2 (expire_entry h now (r, i) s_r)"
    by (simp add: es expire_loop_append s_r_def)
  have d: "extends (expire_entry h now (r, i) s_r) (expire_loop h now es s)"
    unfolding fin by (rule expire_loop_extends)
  have e: "map_of (mMulticastForwardingCache (expire_loop h now es s)) r
               = map_of (mMulticastForwardingCache (expire_entry h now (r, i) s_r)) r"
    unfolding fin by (rule expire_loop_frame [OF expire_entry_sorted [OF b] n2])
  show ?thesis using a b c d e by blast
qed

lemma Expire_at:
  assumes srt: "mfc_sorted (mMulticastForwardingCache s)"
    and mem: "(r, i) \<in> set (mMulticastForwardingCache s)"
  shows "\<exists>s_r. extends s s_r \<and> clock_reads s < clock_reads s_r
           \<and> mfc_sorted (mMulticastForwardingCache s_r)
           \<and> map_of (mMulticastForwardingCache s_r) r = Some i
           \<and> extends (expire_entry h (sys_clock h (clock_reads s)) (r, i) s_r)
                (ExpireMulticastForwardingCache h s)
           \<and> map_of (mMulticastForwardingCache (ExpireMulticastForwardingCache h s)) r
               = map_of (mMulticastForwardingCache
                    (expire_entry h (sys_clock h (clock_reads s)) (r, i) s_r)) r"
proof -
  define s0 where "s0 = s\<lparr>clock_reads := Suc (clock_reads s)\<rparr>"
  have E: "ExpireMulticastForwardingCache h s
             = expire_loop h (sys_clock h (clock_reads s)) (mMulticastForwardingCache s) s0"
    by (simp add: ExpireMulticastForwardingCache_def Clock_now_def s0_def)
  have srt0: "mfc_sorted (mMulticastForwardingCache s0)" using srt by (simp add: s0_def)
  have live: "map_of (mMulticastForwardingCache s0) r = Some i"
    using map_of_sorted_entry [OF srt mem] by (simp add: s0_def)
  obtain s_r where s_r: "extends s0 s_r"
      "mfc_sorted (mMulticastForwardingCache s_r)"
      "map_of (mMulticastForwardingCache s_r) r = Some i"
      "extends (expire_entry h (sys_clock h (clock_reads s)) (r, i) s_r)
         (expire_loop h (sys_clock h (clock_reads s)) (mMulticastForwardingCache s) s0)"
      "map_of (mMulticastForwardingCache
           (expire_loop h (sys_clock h (clock_reads s)) (mMulticastForwardingCache s) s0)) r
         = map_of (mMulticastForwardingCache
                    (expire_entry h (sys_clock h (clock_reads s)) (r, i) s_r)) r"
    using expire_loop_at [OF srt0 mem mfc_sorted_distinct [OF srt] live] by blast
  have "extends s s0" by (simp add: extends_def s0_def)
  then have x: "extends s s_r" using s_r(1) extends_trans by blast
  have y: "clock_reads s < clock_reads s_r" using s_r(1) by (simp add: extends_def s0_def)
  show ?thesis using x y s_r(2-5) unfolding E by blast
qed

lemma Update_refresh:
  assumes "map_of (mMulticastForwardingCache s) r = Some i"
    and "sys_ioctl h (mMulticastRouterSock s) (mSrcAddr r) (mGroupAddr r) = (ret, c)"
    and "ret \<noteq> -1" and "pktcnt c - wrong_if c \<noteq> mValidPktCnt i"
  shows "UpdateMulticastRouteInfo h r s =
           (True,
            s\<lparr>syscalls := syscalls s @
                 [Ioctl_SIOCGETSGCNT_IN6 (mMulticastRouterSock s) (mSrcAddr r) (mGroupAddr r)],
              clock_reads := Suc (clock_reads s),
              mMulticastForwardingCache :=
                mfc_assign r (i\<lparr>mValidPktCnt := pktcnt c,
                                 mLastUseTime := sys_clock h (clock_reads s)\<rparr>)
                  (mMulticastForwardingCache s)\<rparr>)"
  using assms
  by (simp add: UpdateMulticastRouteInfo_def mfc_subscript_def mfc_find_map_of issue_def
        Clock_now_def Let_def)

lemma Update_no_refresh:
  assumes "map_of (mMulticastForwardingCache s) r = Some i"
    and "sys_ioctl h (mMulticastRouterSock s) (mSrcAddr r) (mGroupAddr r) = (ret, c)"
    and "ret = -1 \<or> pktcnt c - wrong_if c = mValidPktCnt i"
  shows "UpdateMulticastRouteInfo h r s =
           (False,
            s\<lparr>syscalls := syscalls s @
                 [Ioctl_SIOCGETSGCNT_IN6 (mMulticastRouterSock s) (mSrcAddr r) (mGroupAddr r)]\<rparr>)"
  using assms
  by (auto simp: UpdateMulticastRouteInfo_def mfc_subscript_def mfc_find_map_of issue_def
        Clock_now_def Let_def)

lemma expire_entry_refresh:
  assumes "map_of (mMulticastForwardingCache s) r = Some i"
    and "mLastUseTime i + chrono_seconds kMulticastForwardingCacheExpireTimeout < now"
    and "sys_ioctl h (mMulticastRouterSock s) (mSrcAddr r) (mGroupAddr r) = (ret, c)"
    and "ret \<noteq> -1" and "pktcnt c - wrong_if c \<noteq> mValidPktCnt i"
  shows "map_of (mMulticastForwardingCache (expire_entry h now (r, i) s)) r
           = Some (i\<lparr>mValidPktCnt := pktcnt c, mLastUseTime := sys_clock h (clock_reads s)\<rparr>)"
  using assms(2) Update_refresh [OF assms(1,3,4,5)]
  by (simp add: expire_entry_def map_of_mfc_assign)

lemma expire_entry_delete:
  assumes srt: "mfc_sorted (mMulticastForwardingCache s)"
    and "map_of (mMulticastForwardingCache s) r = Some i"
    and "mLastUseTime i + chrono_seconds kMulticastForwardingCacheExpireTimeout < now"
    and "sys_ioctl h (mMulticastRouterSock s) (mSrcAddr r) (mGroupAddr r) = (ret, c)"
    and "ret = -1 \<or> pktcnt c - wrong_if c = mValidPktCnt i"
  shows "map_of (mMulticastForwardingCache (expire_entry h now (r, i) s)) r
           = (if fst (sys_setsockopt h (mMulticastRouterSock s)
                       (MRT6_DEL_MFC \<lparr>mf6cc_origin = mSrcAddr r, mf6cc_mcastgrp = mGroupAddr r,
                           mf6cc_parent = mIif i, mf6cc_ifset = {}\<rparr>)) = 0
                 \<or> snd (sys_setsockopt h (mMulticastRouterSock s)
                       (MRT6_DEL_MFC \<lparr>mf6cc_origin = mSrcAddr r, mf6cc_mcastgrp = mGroupAddr r,
                           mf6cc_parent = mIif i, mf6cc_ifset = {}\<rparr>)) = ENOENT
              then None else Some i)"
    and "Setsockopt (mMulticastRouterSock s)
           (MRT6_DEL_MFC \<lparr>mf6cc_origin = mSrcAddr r, mf6cc_mcastgrp = mGroupAddr r,
                mf6cc_parent = mIif i, mf6cc_ifset = {}\<rparr>)
         \<in> set (drop (length (syscalls s)) (syscalls (expire_entry h now (r, i) s)))"
  using assms(1,2,3) Update_no_refresh [OF assms(2,4,5)]
  by (simp_all add: expire_entry_def map_of_mfc_erase issue_def Let_def split_beta)

lemma issued_since_mono:
  assumes "extends s s1" and "extends s2 s3" and "c \<in> set (issued_since s1 s2)"
  shows "c \<in> set (issued_since s s3)"
proof -
  from assms(1) obtain ys where ys: "syscalls s1 = syscalls s @ ys" by (auto simp: extends_def)
  from assms(2) obtain zs where zs: "syscalls s3 = syscalls s2 @ zs" by (auto simp: extends_def)
  have "set (drop (length (syscalls s) + length ys) (syscalls s2))
          \<subseteq> set (drop (length (syscalls s)) (syscalls s2))"
    by (rule set_drop_subset_set_drop) simp
  then have "c \<in> set (drop (length (syscalls s)) (syscalls s2))"
    using assms(3) by (auto simp: issued_since_def ys)
  then show ?thesis by (auto simp: issued_since_def zs)
qed

lemmas expire_eval = ExpireMulticastForwardingCache_def expire_entry_def UpdateMulticastRouteInfo_def
  mfc_subscript_def Clock_now_def issue_def Let_def route_equiv_def route_less_def
  Ip6Address_neq_def Ip6Address_less_def chrono_seconds_def
  kMulticastForwardingCacheExpireTimeout_def ENOENT_def

lemma Expire_stale_100:
  "ExpireMulticastForwardingCache host_ok (mrm_stale 100) =
     (mrm_stale 100)\<lparr>mMulticastForwardingCache :=
        [(\<lparr>mSrcAddr = ip6_2001_db8_1, mGroupAddr = ip6_ff05_abcd\<rparr>,
          \<lparr>mLastUseTime = 301000000001, mValidPktCnt = 150, mOif = 0, mIif = 1\<rparr>)],
        syscalls := [Ioctl_SIOCGETSGCNT_IN6 7 ip6_2001_db8_1 ip6_ff05_abcd],
        clock_reads := 2\<rparr>"
  by (simp add: expire_eval mrm_stale_def host_ok_def)

lemma Expire_stale_150:
  "ExpireMulticastForwardingCache host_ok (mrm_stale 150) =
     (mrm_stale 150)\<lparr>mMulticastForwardingCache := [],
        syscalls := [Ioctl_SIOCGETSGCNT_IN6 7 ip6_2001_db8_1 ip6_ff05_abcd,
          Setsockopt 7 (MRT6_DEL_MFC \<lparr>mf6cc_origin = ip6_2001_db8_1, mf6cc_mcastgrp = ip6_ff05_abcd,
                mf6cc_parent = 1, mf6cc_ifset = {}\<rparr>)],
        clock_reads := 1\<rparr>"
  by (simp add: expire_eval mrm_stale_def host_ok_def)

lemma Expire_stale_query_fails:
  "ExpireMulticastForwardingCache host_query_fails (mrm_stale 100) =
     (mrm_stale 100)\<lparr>mMulticastForwardingCache := [],
        syscalls := [Ioctl_SIOCGETSGCNT_IN6 7 ip6_2001_db8_1 ip6_ff05_abcd,
          Setsockopt 7 (MRT6_DEL_MFC \<lparr>mf6cc_origin = ip6_2001_db8_1, mf6cc_mcastgrp = ip6_ff05_abcd,
                mf6cc_parent = 1, mf6cc_ifset = {}\<rparr>)],
        clock_reads := 1\<rparr>"
  by (simp add: expire_eval mrm_stale_def host_query_fails_def host_ok_def)

text \<open>
  C5. In the expiry pass, take an entry of the cache whose \<open>last_use + 300 s\<close> is before the
  reading \<open>now\<close> of the clock that starts the pass, and whose counter query succeeds.
  If \<open>pktcnt - wrong_if\<close> (in \<^verbatim>\<open>unsigned long\<close> arithmetic) differs from the stored
  \<open>valid_pkt_cnt\<close>, the entry is retained with \<open>valid_pkt_cnt\<close> set to the raw \<open>pktcnt\<close> and
  \<open>last_use\<close> set to a reading of the clock taken during the pass, after \<open>now\<close>.  If it
  equals the stored value, \<^verbatim>\<open>MRT6_DEL_MFC\<close> is issued for the route with the entry's
  incoming interface as parent, and the entry is erased when the kernel reports success
  or \<^verbatim>\<open>ENOENT\<close>.
\<close>

theorem Expire_overage_entry:
  assumes srt: "mfc_sorted (mMulticastForwardingCache s)"
    and mem: "(route, info) \<in> set (mMulticastForwardingCache s)"
    and old: "mLastUseTime info + chrono_seconds 300 < sys_clock h (clock_reads s)"
    and query: "sys_ioctl h (mMulticastRouterSock s) (mSrcAddr route) (mGroupAddr route) = (ret, cnt)"
    and ok: "ret \<noteq> -1"
  shows "if pktcnt cnt - wrong_if cnt \<noteq> mValidPktCnt info
         then \<exists>n. clock_reads s < n \<and> n < clock_reads (ExpireMulticastForwardingCache h s)
                \<and> mfc_find route (mMulticastForwardingCache (ExpireMulticastForwardingCache h s))
                    = Some (info\<lparr>mValidPktCnt := pktcnt cnt, mLastUseTime := sys_clock h n\<rparr>)
         else Setsockopt (mMulticastRouterSock s)
                (MRT6_DEL_MFC \<lparr>mf6cc_origin = mSrcAddr route, mf6cc_mcastgrp = mGroupAddr route,
                     mf6cc_parent = mIif info, mf6cc_ifset = {}\<rparr>)
                \<in> set (issued_since s (ExpireMulticastForwardingCache h s))
              \<and> (fst (sys_setsockopt h (mMulticastRouterSock s)
                       (MRT6_DEL_MFC \<lparr>mf6cc_origin = mSrcAddr route, mf6cc_mcastgrp = mGroupAddr route,
                            mf6cc_parent = mIif info, mf6cc_ifset = {}\<rparr>)) = 0
                   \<or> snd (sys_setsockopt h (mMulticastRouterSock s)
                       (MRT6_DEL_MFC \<lparr>mf6cc_origin = mSrcAddr route, mf6cc_mcastgrp = mGroupAddr route,
                            mf6cc_parent = mIif info, mf6cc_ifset = {}\<rparr>)) = ENOENT
                 \<longrightarrow> mfc_find route (mMulticastForwardingCache (ExpireMulticastForwardingCache h s))
                       = None)"
proof -
  let ?now = "sys_clock h (clock_reads s)"
  let ?F = "ExpireMulticastForwardingCache h s"
  obtain s_r where s_r: "extends s s_r" "clock_reads s < clock_reads s_r"
      "mfc_sorted (mMulticastForwardingCache s_r)"
      "map_of (mMulticastForwardingCache s_r) route = Some info"
      "extends (expire_entry h ?now (route, info) s_r) ?F"
      "map_of (mMulticastForwardingCache ?F) route
         = map_of (mMulticastForwardingCache (expire_entry h ?now (route, info) s_r)) route"
    using Expire_at [OF srt mem, of h] by blast
  have fd: "mMulticastRouterSock s_r = mMulticastRouterSock s"
    using s_r(1) by (simp add: extends_def)
  have old': "mLastUseTime info + chrono_seconds kMulticastForwardingCacheExpireTimeout < ?now"
    using old by (simp add: kMulticastForwardingCacheExpireTimeout_def)
  have query': "sys_ioctl h (mMulticastRouterSock s_r) (mSrcAddr route) (mGroupAddr route) = (ret, cnt)"
    using query fd by simp
  show ?thesis
  proof (cases "pktcnt cnt - wrong_if cnt \<noteq> mValidPktCnt info")
    case True
    have r: "map_of (mMulticastForwardingCache (expire_entry h ?now (route, info) s_r)) route
           = Some (info\<lparr>mValidPktCnt := pktcnt cnt, mLastUseTime := sys_clock h (clock_reads s_r)\<rparr>)"
      by (rule expire_entry_refresh [OF s_r(4) old' query' ok True])
    have "UpdateMulticastRouteInfo h route s_r =
           (True,
            s_r\<lparr>syscalls := syscalls s_r @
                 [Ioctl_SIOCGETSGCNT_IN6 (mMulticastRouterSock s_r) (mSrcAddr route) (mGroupAddr route)],
              clock_reads := Suc (clock_reads s_r),
              mMulticastForwardingCache :=
                mfc_assign route (info\<lparr>mValidPktCnt := pktcnt cnt,
                                 mLastUseTime := sys_clock h (clock_reads s_r)\<rparr>)
                  (mMulticastForwardingCache s_r)\<rparr>)"
      by (rule Update_refresh [OF s_r(4) query' ok True])
    then have "clock_reads (expire_entry h ?now (route, info) s_r) = Suc (clock_reads s_r)"
      using old' by (simp add: expire_entry_def)
    then have "clock_reads s_r < clock_reads ?F"
      using s_r(5) by (simp add: extends_def)
    then show ?thesis
      using True r s_r(2) s_r(6) by (auto simp: mfc_find_map_of)
  next
    case False
    then have eq: "ret = -1 \<or> pktcnt cnt - wrong_if cnt = mValidPktCnt info" by simp
    note d = expire_entry_delete [OF s_r(3) s_r(4) old' query' eq]
    have "Setsockopt (mMulticastRouterSock s)
           (MRT6_DEL_MFC \<lparr>mf6cc_origin = mSrcAddr route, mf6cc_mcastgrp = mGroupAddr route,
                mf6cc_parent = mIif info, mf6cc_ifset = {}\<rparr>)
         \<in> set (issued_since s ?F)"
      using issued_since_mono [OF s_r(1) s_r(5)] d(2) by (simp add: issued_since_def fd)
    then show ?thesis
      using False d(1) s_r(6) by (auto simp: mfc_find_map_of fd)
  qed
qed

theorem Expire_overage_entry_witness:
  "mfc_sorted (mMulticastForwardingCache (mrm_stale 100))
   \<and> mLastUseTime \<lparr>mLastUseTime = 0, mValidPktCnt = 100, mOif = 0, mIif = 1\<rparr> + chrono_seconds 300
       < sys_clock host_ok (clock_reads (mrm_stale 100))
   \<and> sys_ioctl host_ok 7 ip6_2001_db8_1 ip6_ff05_abcd
       = (0, \<lparr>pktcnt = 150, bytecnt = 9000, wrong_if = 0\<rparr>)
   \<and> mfc_find \<lparr>mSrcAddr = ip6_2001_db8_1, mGroupAddr = ip6_ff05_abcd\<rparr>
        (mMulticastForwardingCache (ExpireMulticastForwardingCache host_ok (mrm_stale 100)))
       = Some \<lparr>mLastUseTime = 301000000001, mValidPktCnt = 150, mOif = 0, mIif = 1\<rparr>
   \<and> mfc_find \<lparr>mSrcAddr = ip6_2001_db8_1, mGroupAddr = ip6_ff05_abcd\<rparr>
        (mMulticastForwardingCache (ExpireMulticastForwardingCache host_ok (mrm_stale 150)))
       = None"
proof -
  let ?r = "\<lparr>mSrcAddr = ip6_2001_db8_1, mGroupAddr = ip6_ff05_abcd\<rparr>"
  let ?i = "\<lambda>n. \<lparr>mLastUseTime = 0, mValidPktCnt = n, mOif = 0, mIif = 1\<rparr>"
  have srt: "mfc_sorted (mMulticastForwardingCache (mrm_stale n))" for n
    by (simp add: mrm_stale_def)
  have mem: "(?r, ?i n) \<in> set (mMulticastForwardingCache (mrm_stale n))" for n
    by (simp add: mrm_stale_def)
  have old: "mLastUseTime (?i n) + chrono_seconds 300
       < sys_clock host_ok (clock_reads (mrm_stale n))" for n
    by (simp add: mrm_stale_def host_ok_def chrono_seconds_def)
  have query: "sys_ioctl host_ok (mMulticastRouterSock (mrm_stale n)) (mSrcAddr ?r) (mGroupAddr ?r)
       = (0, \<lparr>pktcnt = 150, bytecnt = 9000, wrong_if = 0\<rparr>)" for n
    by (simp add: host_ok_def)
  have ok: "(0 :: int) \<noteq> -1" by simp
  note refresh = Expire_overage_entry [OF srt mem old query ok, of 100]
  note delete = Expire_overage_entry [OF srt mem old query ok, of 150]
  have del_ok: "fst (sys_setsockopt host_ok 7
           (MRT6_DEL_MFC \<lparr>mf6cc_origin = ip6_2001_db8_1, mf6cc_mcastgrp = ip6_ff05_abcd,
                mf6cc_parent = 1, mf6cc_ifset = {}\<rparr>)) = 0"
    by (simp add: host_ok_def)
  have a: "mfc_find ?r
        (mMulticastForwardingCache (ExpireMulticastForwardingCache host_ok (mrm_stale 150)))
       = None"
    using delete del_ok by (simp add: mrm_stale_def)
  have b: "mfc_find ?r
        (mMulticastForwardingCache (ExpireMulticastForwardingCache host_ok (mrm_stale 100)))
       = Some \<lparr>mLastUseTime = 301000000001, mValidPktCnt = 150, mOif = 0, mIif = 1\<rparr>"
    using refresh by (simp add: Expire_stale_100 route_equiv_def route_less_irrefl)
  show ?thesis
    using srt [of 100] old [of 100] query [of 100] a b by (simp add: mrm_stale_def)
qed

text \<open>
  C3, as stated, fails: an entry older than 300 s whose counter query fails is not kept.
  On a host where the query fails and the deletion succeeds, the pass issues
  \<^verbatim>\<open>MRT6_DEL_MFC\<close> for the entry and erases it from the cache.
\<close>

theorem Expire_query_failure_counterexample:
  "(\<lparr>mSrcAddr = ip6_2001_db8_1, mGroupAddr = ip6_ff05_abcd\<rparr>,
      \<lparr>mLastUseTime = 0, mValidPktCnt = 100, mOif = 0, mIif = 1\<rparr>)
     \<in> set (mMulticastForwardingCache (mrm_stale 100))
   \<and> (0 :: int) + chrono_seconds 300 < sys_clock host_query_fails (clock_reads (mrm_stale 100))
   \<and> fst (sys_ioctl host_query_fails 7 ip6_2001_db8_1 ip6_ff05_abcd) = -1
   \<and> mfc_find \<lparr>mSrcAddr = ip6_2001_db8_1, mGroupAddr = ip6_ff05_abcd\<rparr>
        (mMulticastForwardingCache (ExpireMulticastForwardingCache host_query_fails (mrm_stale 100)))
       = None
   \<and> syscalls (ExpireMulticastForwardingCache host_query_fails (mrm_stale 100))
       = [Ioctl_SIOCGETSGCNT_IN6 7 ip6_2001_db8_1 ip6_ff05_abcd,
          Setsockopt 7 (MRT6_DEL_MFC \<lparr>mf6cc_origin = ip6_2001_db8_1, mf6cc_mcastgrp = ip6_ff05_abcd,
                mf6cc_parent = 1, mf6cc_ifset = {}\<rparr>)]"
  by (simp add: Expire_stale_query_fails)
    (simp add: mrm_stale_def host_query_fails_def host_ok_def chrono_seconds_def)

text \<open>
  C3, amended.  In the expiry pass, for an entry older than 300 s whose counter query
  fails, \<^verbatim>\<open>UpdateMulticastRouteInfo\<close> reports no update, so the entry is treated as
  expired: \<^verbatim>\<open>MRT6_DEL_MFC\<close> is issued for it, and it is erased from the cache when the
  kernel reports success or \<^verbatim>\<open>ENOENT\<close>; it is kept, unchanged, only when that deletion
  fails with another error.
\<close>

theorem Expire_query_failure:
  assumes srt: "mfc_sorted (mMulticastForwardingCache s)"
    and mem: "(route, info) \<in> set (mMulticastForwardingCache s)"
    and old: "mLastUseTime info + chrono_seconds 300 < sys_clock h (clock_reads s)"
    and query: "fst (sys_ioctl h (mMulticastRouterSock s) (mSrcAddr route) (mGroupAddr route)) = -1"
  shows "Setsockopt (mMulticastRouterSock s)
                (MRT6_DEL_MFC \<lparr>mf6cc_origin = mSrcAddr route, mf6cc_mcastgrp = mGroupAddr route,
                     mf6cc_parent = mIif info, mf6cc_ifset = {}\<rparr>)
           \<in> set (issued_since s (ExpireMulticastForwardingCache h s))
       \<and> mfc_find route (mMulticastForwardingCache (ExpireMulticastForwardingCache h s))
          = (if fst (sys_setsockopt h (mMulticastRouterSock s)
                       (MRT6_DEL_MFC \<lparr>mf6cc_origin = mSrcAddr route, mf6cc_mcastgrp = mGroupAddr route,
                            mf6cc_parent = mIif info, mf6cc_ifset = {}\<rparr>)) = 0
                \<or> snd (sys_setsockopt h (mMulticastRouterSock s)
                       (MRT6_DEL_MFC \<lparr>mf6cc_origin = mSrcAddr route, mf6cc_mcastgrp = mGroupAddr route,
                            mf6cc_parent = mIif info, mf6cc_ifset = {}\<rparr>)) = ENOENT
             then None else Some info)"
proof -
  let ?now = "sys_clock h (clock_reads s)"
  let ?F = "ExpireMulticastForwardingCache h s"
  obtain s_r where s_r: "extends s s_r" "clock_reads s < clock_reads s_r"
      "mfc_sorted (mMulticastForwardingCache s_r)"
      "map_of (mMulticastForwardingCache s_r) route = Some info"
      "extends (expire_entry h ?now (route, info) s_r) ?F"
      "map_of (mMulticastForwardingCache ?F) route
         = map_of (mMulticastForwardingCache (expire_entry h ?now (route, info) s_r)) route"
    using Expire_at [OF srt mem, of h] by blast
  have fd: "mMulticastRouterSock s_r = mMulticastRouterSock s"
    using s_r(1) by (simp add: extends_def)
  have old': "mLastUseTime info + chrono_seconds kMulticastForwardingCacheExpireTimeout < ?now"
    using old by (simp add: kMulticastForwardingCacheExpireTimeout_def)
  obtain cnt where query': "sys_ioctl h (mMulticastRouterSock s_r) (mSrcAddr route) (mGroupAddr route) = (-1, cnt)"
    using query fd by (cases "sys_ioctl h (mMulticastRouterSock s) (mSrcAddr route) (mGroupAddr route)") auto
  have eq: "(-1 :: int) = -1 \<or> pktcnt cnt - wrong_if cnt = mValidPktCnt info" by simp
  note d = expire_entry_delete [OF s_r(3) s_r(4) old' query' eq]
  have "Setsockopt (mMulticastRouterSock s)
           (MRT6_DEL_MFC \<lparr>mf6cc_origin = mSrcAddr route, mf6cc_mcastgrp = mGroupAddr route,
                mf6cc_parent = mIif info, mf6cc_ifset = {}\<rparr>)
         \<in> set (issued_since s ?F)"
    using issued_since_mono [OF s_r(1) s_r(5)] d(2) by (simp add: issued_since_def fd)
  then show ?thesis
    using d(1) s_r(6) by (simp add: mfc_find_map_of fd)
qed

theorem Expire_query_failure_witness:
  "mfc_sorted (mMulticastForwardingCache (mrm_stale 100))
   \<and> fst (sys_ioctl host_query_fails 7 ip6_2001_db8_1 ip6_ff05_abcd) = -1
   \<and> Setsockopt 7 (MRT6_DEL_MFC \<lparr>mf6cc_origin = ip6_2001_db8_1, mf6cc_mcastgrp = ip6_ff05_abcd,
                mf6cc_parent = 1, mf6cc_ifset = {}\<rparr>)
       \<in> set (issued_since (mrm_stale 100)
                (ExpireMulticastForwardingCache host_query_fails (mrm_stale 100)))
   \<and> mfc_find \<lparr>mSrcAddr = ip6_2001_db8_1, mGroupAddr = ip6_ff05_abcd\<rparr>
        (mMulticastForwardingCache (ExpireMulticastForwardingCache host_query_fails (mrm_stale 100)))
       = None"
proof -
  let ?r = "\<lparr>mSrcAddr = ip6_2001_db8_1, mGroupAddr = ip6_ff05_abcd\<rparr>"
  let ?i = "\<lparr>mLastUseTime = 0, mValidPktCnt = 100, mOif = 0, mIif = 1\<rparr>"
  have srt: "mfc_sorted (mMulticastForwardingCache (mrm_stale 100))"
    by (simp add: mrm_stale_def)
  have mem: "(?r, ?i) \<in> set (mMulticastForwardingCache (mrm_stale 100))"
    by (simp add: mrm_stale_def)
  have old: "mLastUseTime ?i + chrono_seconds 300
       < sys_clock host_query_fails (clock_reads (mrm_stale 100))"
    by (simp add: mrm_stale_def host_query_fails_def host_ok_def chrono_seconds_def)
  have query: "fst (sys_ioctl host_query_fails (mMulticastRouterSock (mrm_stale 100))
                 (mSrcAddr ?r) (mGroupAddr ?r)) = -1"
    by (simp add: host_query_fails_def)
  note t = Expire_query_failure [OF srt mem old query]
  have q: "fst (sys_ioctl host_query_fails 7 ip6_2001_db8_1 ip6_ff05_abcd) = -1"
    by (simp add: host_query_fails_def)
  show ?thesis
    using srt q t by (simp add: mrm_stale_def host_query_fails_def host_ok_def)
qed

subsection \<open>Upcalls: the forwarding policy\<close>

lemmas addmfc_eval = AddMulticastForwardingCache_def ExpireMulticastForwardingCache_def
  expire_entry_def Clock_now_def MulticastRouteInfo_new_def issue_def Let_def
  kRealmLocalScope_def kMifIndexThread_def kMifIndexBackbone_def kMifIndexNone_def
  chrono_seconds_def kMulticastForwardingCacheExpireTimeout_def
  route_less_def Ip6Address_less_def Ip6Address_neq_def

lemma GetScope_ff03_fc: "GetScope be ip6_ff03_fc = 3"
  by (simp add: GetScope_def IsMulticast_def m8_def ip6_ff03_fc_def)

text \<open>
  C4. For an upcall \<open>(src, group, iif)\<close> with \<open>iif\<close> Thread or Backbone, the output interface
  that \<^verbatim>\<open>AddMulticastForwardingCache\<close> computes is: Thread if \<open>iif\<close> is Backbone and the group
  is in the listener set, None if \<open>iif\<close> is Backbone and it is not; Backbone if \<open>iif\<close> is
  Thread and the scope of the group is greater than \<open>0x3\<close>, None if \<open>iif\<close> is Thread and it
  is not.  This interface is what the \<^verbatim>\<open>MRT6_ADD_MFC\<close> call, the last system call made,
  carries as its interface set (empty for None), and what the cache entry of
  \<open>(src, group)\<close> records as \<open>oif\<close> when the call succeeds.
\<close>

theorem AddMulticastForwardingCache_policy:
  assumes iif: "aIif = kMifIndexThread \<or> aIif = kMifIndexBackbone"
  shows
    "let oif = (if aIif = kMifIndexBackbone
                then (if aGroupAddr \<in> mListenerSet s then kMifIndexThread else kMifIndexNone)
                else (if GetScope (big_endian h) aGroupAddr > 0x3 then kMifIndexBackbone
                      else kMifIndexNone));
         ctl = \<lparr>mf6cc_origin = aSrcAddr, mf6cc_mcastgrp = aGroupAddr, mf6cc_parent = aIif,
                mf6cc_ifset = (if oif = kMifIndexNone then {} else {oif})\<rparr>;
         res = AddMulticastForwardingCache h aSrcAddr aGroupAddr aIif s
     in last (syscalls (snd res)) = Setsockopt (mMulticastRouterSock s) (MRT6_ADD_MFC ctl)
        \<and> (if fst (sys_setsockopt h (mMulticastRouterSock s) (MRT6_ADD_MFC ctl)) = 0
           then fst res = OTBR_ERROR_NONE
                \<and> (\<exists>t. mfc_find \<lparr>mSrcAddr = aSrcAddr, mGroupAddr = aGroupAddr\<rparr>
                          (mMulticastForwardingCache (snd res))
                        = Some \<lparr>mLastUseTime = t, mValidPktCnt = 0, mOif = oif, mIif = aIif\<rparr>)
           else fst res = OTBR_ERROR_ERRNO)"
proof -
  let ?s1 = "ExpireMulticastForwardingCache h s"
  have x: "extends s ?s1" by (rule Expire_extends)
  then have fd: "mMulticastRouterSock ?s1 = mMulticastRouterSock s"
    and ls: "mListenerSet ?s1 = mListenerSet s"
    by (simp_all add: extends_def)
  have ne: "kMifIndexBackbone \<noteq> kMifIndexThread" "kMifIndexThread \<noteq> kMifIndexNone"
    "kMifIndexBackbone \<noteq> kMifIndexNone"
    by (simp_all add: kMifIndexBackbone_def kMifIndexThread_def kMifIndexNone_def)
  show ?thesis
    using iif ne
    by (auto simp: AddMulticastForwardingCache_def Let_def fd ls issue_def
          MulticastRouteInfo_new_def Clock_now_def mfc_find_map_of map_of_mfc_assign
          kRealmLocalScope_def)
qed

theorem AddMulticastForwardingCache_policy_witness:
  "(kMifIndexThread = kMifIndexThread \<or> kMifIndexThread = kMifIndexBackbone)
   \<and> (kMifIndexBackbone = kMifIndexThread \<or> kMifIndexBackbone = kMifIndexBackbone)
   \<and> mMulticastForwardingCache
        (snd (AddMulticastForwardingCache host_ok ip6_fd00_1 ip6_ff0e_1 kMifIndexThread
               mrm_enabled))
       = [(\<lparr>mSrcAddr = ip6_fd00_1, mGroupAddr = ip6_ff0e_1\<rparr>,
           \<lparr>mLastUseTime = 301000000001, mValidPktCnt = 0,
            mOif = kMifIndexBackbone, mIif = kMifIndexThread\<rparr>)]
   \<and> mMulticastForwardingCache
        (snd (AddMulticastForwardingCache host_ok ip6_fd00_1 ip6_ff03_fc kMifIndexThread
               mrm_enabled))
       = [(\<lparr>mSrcAddr = ip6_fd00_1, mGroupAddr = ip6_ff03_fc\<rparr>,
           \<lparr>mLastUseTime = 301000000001, mValidPktCnt = 0,
            mOif = kMifIndexNone, mIif = kMifIndexThread\<rparr>)]
   \<and> mMulticastForwardingCache
        (snd (AddMulticastForwardingCache host_ok ip6_2001_db8_1 ip6_ff05_abcd kMifIndexBackbone
               (mrm_enabled\<lparr>mListenerSet := {ip6_ff05_abcd}\<rparr>)))
       = [(\<lparr>mSrcAddr = ip6_2001_db8_1, mGroupAddr = ip6_ff05_abcd\<rparr>,
           \<lparr>mLastUseTime = 301000000001, mValidPktCnt = 0,
            mOif = kMifIndexThread, mIif = kMifIndexBackbone\<rparr>)]
   \<and> mMulticastForwardingCache
        (snd (AddMulticastForwardingCache host_ok ip6_2001_db8_1 ip6_ff05_beef kMifIndexBackbone
               (mrm_enabled\<lparr>mListenerSet := {ip6_ff05_abcd}\<rparr>)))
       = [(\<lparr>mSrcAddr = ip6_2001_db8_1, mGroupAddr = ip6_ff05_beef\<rparr>,
           \<lparr>mLastUseTime = 301000000001, mValidPktCnt = 0,
            mOif = kMifIndexNone, mIif = kMifIndexBackbone\<rparr>)]"
proof -
  have a: "kMifIndexThread = kMifIndexThread \<or> kMifIndexThread = kMifIndexBackbone" by simp
  have b: "kMifIndexBackbone = kMifIndexThread \<or> kMifIndexBackbone = kMifIndexBackbone" by simp
  note s1 = AddMulticastForwardingCache_policy [OF a, of ip6_ff0e_1 mrm_enabled host_ok ip6_fd00_1]
  note s2 = AddMulticastForwardingCache_policy [OF a, of ip6_ff03_fc mrm_enabled host_ok ip6_fd00_1]
  note s3 = AddMulticastForwardingCache_policy
    [OF b, of ip6_ff05_abcd "mrm_enabled\<lparr>mListenerSet := {ip6_ff05_abcd}\<rparr>" host_ok ip6_2001_db8_1]
  note s4 = AddMulticastForwardingCache_policy
    [OF b, of ip6_ff05_beef "mrm_enabled\<lparr>mListenerSet := {ip6_ff05_abcd}\<rparr>" host_ok ip6_2001_db8_1]
  have ne: "ip6_ff05_beef \<noteq> ip6_ff05_abcd" by (simp add: ip6_ff05_beef_def ip6_ff05_abcd_def)
  show ?thesis
    using s1 s2 s3 s4
    by (simp add: addmfc_eval mrm_enabled_def MulticastRoutingManager_new_def host_ok_def
          GetScope_ff0e_1 GetScope_ff03_fc ne)
qed

subsection \<open>A listener is added\<close>

lemma issued_since_trans:
  "extends s s1 \<Longrightarrow> extends s1 s2 \<Longrightarrow>
     issued_since s s2 = issued_since s s1 @ issued_since s1 s2"
  by (auto simp: extends_def issued_since_def)

lemma issued_since_refl: "issued_since s s = []"
  by (simp add: issued_since_def)

lemma unblock_entry_skip:
  "\<not> unblock_match g r i \<Longrightarrow> unblock_entry h g (r, i) s = s"
  by (auto simp: unblock_entry_def unblock_match_def Ip6Address_neq_def)

lemma unblock_entry_hit:
  "unblock_match g r i \<Longrightarrow>
     unblock_entry h g (r, i) s =
       (if fst (sys_setsockopt h (mMulticastRouterSock s)
                 (MRT6_ADD_MFC \<lparr>mf6cc_origin = mSrcAddr r, mf6cc_mcastgrp = g,
                       mf6cc_parent = kMifIndexBackbone, mf6cc_ifset = {kMifIndexThread}\<rparr>)) = 0
        then s\<lparr>syscalls := syscalls s @ [unblock_call (mMulticastRouterSock s) g r],
               clock_reads := Suc (clock_reads s),
               mMulticastForwardingCache :=
                 mfc_assign r \<lparr>mLastUseTime = sys_clock h (clock_reads s), mValidPktCnt = 0,
                                mOif = kMifIndexThread, mIif = kMifIndexBackbone\<rparr>
                   (mMulticastForwardingCache s)\<rparr>
        else s\<lparr>syscalls := syscalls s @ [unblock_call (mMulticastRouterSock s) g r]\<rparr>)"
  by (auto simp: unblock_entry_def unblock_match_def unblock_call_def Ip6Address_neq_def
        issue_def Let_def MulticastRouteInfo_new_def Clock_now_def)

lemma unblock_entry_extends: "extends s (unblock_entry h g e s)"
proof -
  obtain r i where e: "e = (r, i)" by (cases e)
  show ?thesis
    by (cases "unblock_match g r i")
      (simp_all add: e unblock_entry_skip unblock_entry_hit extends_def)
qed

lemma unblock_entry_issued:
  "issued_since s (unblock_entry h g (r, i) s) =
     (if unblock_match g r i then [unblock_call (mMulticastRouterSock s) g r] else [])"
  by (cases "unblock_match g r i")
    (simp_all add: unblock_entry_skip unblock_entry_hit issued_since_def)

lemma unblock_entry_sorted:
  "mfc_sorted (mMulticastForwardingCache s) \<Longrightarrow>
     mfc_sorted (mMulticastForwardingCache (unblock_entry h g e s))"
proof -
  assume a: "mfc_sorted (mMulticastForwardingCache s)"
  obtain r i where e: "e = (r, i)" by (cases e)
  show ?thesis using a
    by (cases "unblock_match g r i")
      (simp_all add: e unblock_entry_skip unblock_entry_hit sorted_mfc_assign)
qed

lemma unblock_entry_frame:
  "k \<noteq> r \<Longrightarrow>
     map_of (mMulticastForwardingCache (unblock_entry h g (k, v) s)) r
       = map_of (mMulticastForwardingCache s) r"
  by (cases "unblock_match g k v")
    (simp_all add: unblock_entry_skip unblock_entry_hit map_of_mfc_assign)

lemma unblock_loop_extends: "extends s (unblock_loop h g es s)"
proof (induction es arbitrary: s)
  case Nil
  show ?case by (simp add: extends_refl)
next
  case (Cons e es)
  show ?case using extends_trans [OF unblock_entry_extends Cons.IH] by simp
qed

lemma unblock_loop_frame:
  "r \<notin> fst ` set es \<Longrightarrow>
     map_of (mMulticastForwardingCache (unblock_loop h g es s)) r
       = map_of (mMulticastForwardingCache s) r"
proof (induction es arbitrary: s)
  case Nil
  show ?case by simp
next
  case (Cons e es)
  obtain k v where e: "e = (k, v)" by (cases e)
  have "k \<noteq> r" using Cons.prems e by auto
  then show ?case using Cons.IH [of "unblock_entry h g e s"] Cons.prems
    by (simp add: e unblock_entry_frame)
qed

lemma unblock_loop_append:
  "unblock_loop h g (es @ es') s = unblock_loop h g es' (unblock_loop h g es s)"
  by (induction es arbitrary: s) simp_all

lemma unblock_loop_issued:
  "set (issued_since s (unblock_loop h g es s)) =
     {unblock_call (mMulticastRouterSock s) g r | r i. (r, i) \<in> set es \<and> unblock_match g r i}"
proof (induction es arbitrary: s)
  case Nil
  show ?case by (simp add: issued_since_refl)
next
  case (Cons e es)
  obtain k v where e: "e = (k, v)" by (cases e)
  let ?s1 = "unblock_entry h g (k, v) s"
  have x: "extends s ?s1" by (rule unblock_entry_extends)
  then have fd: "mMulticastRouterSock ?s1 = mMulticastRouterSock s" by (simp add: extends_def)
  have "issued_since s (unblock_loop h g (e # es) s)
          = issued_since s ?s1 @ issued_since ?s1 (unblock_loop h g es ?s1)"
    using issued_since_trans [OF x unblock_loop_extends] by (simp add: e)
  then show ?case
    using Cons.IH [of ?s1] by (auto simp: e fd unblock_entry_issued)
qed

lemma unblock_loop_at:
  assumes mem: "(r, i) \<in> set es" and dist: "distinct (map fst es)"
    and live: "map_of (mMulticastForwardingCache s) r = Some i"
  shows "\<exists>s_r. extends s s_r
           \<and> map_of (mMulticastForwardingCache s_r) r = Some i
           \<and> map_of (mMulticastForwardingCache (unblock_loop h g es s)) r
               = map_of (mMulticastForwardingCache (unblock_entry h g (r, i) s_r)) r"
proof -
  from mem obtain es1 es2 where es: "es = es1 @ (r, i) # es2"
    by (meson split_list)
  from dist es have n1: "r \<notin> fst ` set es1" and n2: "r \<notin> fst ` set es2" by auto
  define s_r where "s_r = unblock_loop h g es1 s"
  have a: "extends s s_r" unfolding s_r_def by (rule unblock_loop_extends)
  have c: "map_of (mMulticastForwardingCache s_r) r = Some i"
    unfolding s_r_def using unblock_loop_frame [OF n1] live by simp
  have fin: "unblock_loop h g es s = unblock_loop h g es2 (unblock_entry h g (r, i) s_r)"
    by (simp add: es unblock_loop_append s_r_def)
  have e: "map_of (mMulticastForwardingCache (unblock_loop h g es s)) r
               = map_of (mMulticastForwardingCache (unblock_entry h g (r, i) s_r)) r"
    unfolding fin by (rule unblock_loop_frame [OF n2])
  show ?thesis using a c e by blast
qed

lemma mrm_blocked_cache:
  "mMulticastForwardingCache mrm_blocked =
     [(\<lparr>mSrcAddr = ip6_2001_db8_1, mGroupAddr = ip6_ff05_beef\<rparr>,
       \<lparr>mLastUseTime = 301000000001, mValidPktCnt = 0, mOif = 0xff, mIif = 1\<rparr>)]"
  "mMulticastRouterSock mrm_blocked = 7"
  "mListenerSet mrm_blocked = {}"
  "clock_reads mrm_blocked = 2"
  unfolding mrm_blocked_def Enable_host_ok
  by (simp_all add: addmfc_eval host_ok_def)

text \<open>
  C8, as stated, fails: on a host where \<^verbatim>\<open>MRT6_ADD_MFC\<close> fails, \<^verbatim>\<open>Add\<close> of the group of a
  blocked entry (\<open>iif\<close> Backbone, \<open>oif\<close> None) leaves the entry blocked.
\<close>

theorem Add_unblocks_counterexample:
  "IsEnabled mrm_blocked
   \<and> ip6_ff05_beef \<notin> mListenerSet mrm_blocked
   \<and> mfc_find \<lparr>mSrcAddr = ip6_2001_db8_1, mGroupAddr = ip6_ff05_beef\<rparr>
        (mMulticastForwardingCache mrm_blocked)
       = Some \<lparr>mLastUseTime = 301000000001, mValidPktCnt = 0,
               mOif = kMifIndexNone, mIif = kMifIndexBackbone\<rparr>
   \<and> map_option
        (\<lambda>s'. mfc_find \<lparr>mSrcAddr = ip6_2001_db8_1, mGroupAddr = ip6_ff05_beef\<rparr>
                 (mMulticastForwardingCache s'))
        (Add host_add_mfc_fails ip6_ff05_beef mrm_blocked)
       = Some (Some \<lparr>mLastUseTime = 301000000001, mValidPktCnt = 0,
                     mOif = kMifIndexNone, mIif = kMifIndexBackbone\<rparr>)"
  by (simp add: Add_def UnblockInboundMulticastForwardingCache_def unblock_entry_def
        mrm_blocked_cache IsEnabled_def issue_def Let_def host_add_mfc_fails_def
        route_equiv_def route_less_def Ip6Address_neq_def Ip6Address_less_def
        kMifIndexThread_def kMifIndexBackbone_def kMifIndexNone_def)

text \<open>
  C8, amended.  \<^verbatim>\<open>Add\<close> of a group \<open>g\<close> that is not yet a listener, on an enabled manager,
  issues \<^verbatim>\<open>MRT6_ADD_MFC\<close> with parent Backbone and interface set \<open>{Thread}\<close> for exactly the
  entries with \<open>iif\<close> Backbone, \<open>oif\<close> other than Thread and group \<open>g\<close>, each with its own
  \<open>(src, group)\<close>.  Such an entry is rewritten to \<open>oif\<close> Thread (with a fresh use time and
  a packet count of zero) when its call succeeds and is left as it was when the call
  fails.  Every other entry (another group, already forwarding, or \<open>iif\<close> Thread) is left
  as it was.
\<close>

theorem Add_unblocks_on_success:
  assumes srt: "mfc_sorted (mMulticastForwardingCache s)"
    and en: "IsEnabled s"
    and fresh: "g \<notin> mListenerSet s"
    and mem: "(route, info) \<in> set (mMulticastForwardingCache s)"
  shows "\<exists>s'. Add h g s = Some s'
          \<and> mListenerSet s' = insert g (mListenerSet s)
          \<and> set (issued_since s s') =
              {Setsockopt (mMulticastRouterSock s)
                 (MRT6_ADD_MFC \<lparr>mf6cc_origin = mSrcAddr r, mf6cc_mcastgrp = g,
                       mf6cc_parent = kMifIndexBackbone, mf6cc_ifset = {kMifIndexThread}\<rparr>)
               | r i. (r, i) \<in> set (mMulticastForwardingCache s)
                      \<and> mIif i = kMifIndexBackbone \<and> mOif i \<noteq> kMifIndexThread
                      \<and> mGroupAddr r = g}
          \<and> (if mIif info = kMifIndexBackbone \<and> mOif info \<noteq> kMifIndexThread
                 \<and> mGroupAddr route = g
              then (if fst (sys_setsockopt h (mMulticastRouterSock s)
                         (MRT6_ADD_MFC \<lparr>mf6cc_origin = mSrcAddr route, mf6cc_mcastgrp = g,
                            mf6cc_parent = kMifIndexBackbone, mf6cc_ifset = {kMifIndexThread}\<rparr>)) = 0
                    then \<exists>t. mfc_find route (mMulticastForwardingCache s')
                              = Some \<lparr>mLastUseTime = t, mValidPktCnt = 0,
                                      mOif = kMifIndexThread, mIif = kMifIndexBackbone\<rparr>
                    else mfc_find route (mMulticastForwardingCache s') = Some info)
              else mfc_find route (mMulticastForwardingCache s') = Some info)"
proof -
  define s1 where "s1 = s\<lparr>mListenerSet := insert g (mListenerSet s)\<rparr>"
  define s' where "s' = unblock_loop h g (mMulticastForwardingCache s1) s1"
  have add: "Add h g s = Some s'"
    using en fresh
    by (simp add: Add_def Let_def IsEnabled_def UnblockInboundMulticastForwardingCache_def
          s1_def s'_def)
  have c1: "mMulticastForwardingCache s1 = mMulticastForwardingCache s"
    and fd1: "mMulticastRouterSock s1 = mMulticastRouterSock s"
    and sc1: "syscalls s1 = syscalls s"
    by (simp_all add: s1_def)
  have iss: "issued_since s s' = issued_since s1 s'"
    by (simp add: issued_since_def sc1)
  have "set (issued_since s1 s') =
      {unblock_call (mMulticastRouterSock s) g r | r i.
         (r, i) \<in> set (mMulticastForwardingCache s) \<and> unblock_match g r i}"
    unfolding s'_def using unblock_loop_issued [of s1 h g "mMulticastForwardingCache s1"]
    by (simp add: c1 fd1)
  then have calls: "set (issued_since s s') =
      {Setsockopt (mMulticastRouterSock s)
                 (MRT6_ADD_MFC \<lparr>mf6cc_origin = mSrcAddr r, mf6cc_mcastgrp = g,
                       mf6cc_parent = kMifIndexBackbone, mf6cc_ifset = {kMifIndexThread}\<rparr>)
               | r i. (r, i) \<in> set (mMulticastForwardingCache s)
                      \<and> mIif i = kMifIndexBackbone \<and> mOif i \<noteq> kMifIndexThread
                      \<and> mGroupAddr r = g}"
    by (simp add: iss unblock_call_def unblock_match_def)
  have live: "map_of (mMulticastForwardingCache s1) route = Some info"
    using map_of_sorted_entry [OF srt mem] by (simp add: c1)
  obtain s_r where s_r: "extends s1 s_r"
      "map_of (mMulticastForwardingCache s_r) route = Some info"
      "map_of (mMulticastForwardingCache s') route
         = map_of (mMulticastForwardingCache (unblock_entry h g (route, info) s_r)) route"
    using unblock_loop_at [of route info "mMulticastForwardingCache s1" s1 h g]
      mem mfc_sorted_distinct [OF srt] live
    unfolding s'_def c1 by blast
  have fdr: "mMulticastRouterSock s_r = mMulticastRouterSock s"
    using s_r(1) fd1 by (simp add: extends_def)
  have entry: "if mIif info = kMifIndexBackbone \<and> mOif info \<noteq> kMifIndexThread
                 \<and> mGroupAddr route = g
              then (if fst (sys_setsockopt h (mMulticastRouterSock s)
                         (MRT6_ADD_MFC \<lparr>mf6cc_origin = mSrcAddr route, mf6cc_mcastgrp = g,
                            mf6cc_parent = kMifIndexBackbone, mf6cc_ifset = {kMifIndexThread}\<rparr>)) = 0
                    then \<exists>t. mfc_find route (mMulticastForwardingCache s')
                              = Some \<lparr>mLastUseTime = t, mValidPktCnt = 0,
                                      mOif = kMifIndexThread, mIif = kMifIndexBackbone\<rparr>
                    else mfc_find route (mMulticastForwardingCache s') = Some info)
              else mfc_find route (mMulticastForwardingCache s') = Some info"
  proof (cases "unblock_match g route info")
    case True
    then show ?thesis
      using s_r(2,3) unblock_entry_hit [OF True, of h s_r]
      by (auto simp: mfc_find_map_of fdr map_of_mfc_assign unblock_match_def)
  next
    case False
    then show ?thesis
      using s_r(2,3) unblock_entry_skip [OF False, of h s_r]
      by (auto simp: mfc_find_map_of unblock_match_def)
  qed
  have "extends s1 s'" unfolding s'_def by (rule unblock_loop_extends)
  then have ls: "mListenerSet s' = insert g (mListenerSet s)"
    by (simp add: extends_def s1_def)
  show ?thesis using add ls calls entry by blast
qed

theorem Add_unblocks_on_success_witness:
  "mfc_sorted (mMulticastForwardingCache mrm_blocked)
   \<and> IsEnabled mrm_blocked
   \<and> ip6_ff05_beef \<notin> mListenerSet mrm_blocked
   \<and> (\<lparr>mSrcAddr = ip6_2001_db8_1, mGroupAddr = ip6_ff05_beef\<rparr>,
       \<lparr>mLastUseTime = 301000000001, mValidPktCnt = 0, mOif = 0xff, mIif = 1\<rparr>)
      \<in> set (mMulticastForwardingCache mrm_blocked)
   \<and> map_option
        (\<lambda>s'. mfc_find \<lparr>mSrcAddr = ip6_2001_db8_1, mGroupAddr = ip6_ff05_beef\<rparr>
                 (mMulticastForwardingCache s'))
        (Add host_ok ip6_ff05_beef mrm_blocked)
       = Some (Some \<lparr>mLastUseTime = 301000000002, mValidPktCnt = 0,
                     mOif = kMifIndexThread, mIif = kMifIndexBackbone\<rparr>)"
proof -
  let ?r = "\<lparr>mSrcAddr = ip6_2001_db8_1, mGroupAddr = ip6_ff05_beef\<rparr>"
  let ?i = "\<lparr>mLastUseTime = 301000000001, mValidPktCnt = 0, mOif = 0xff, mIif = 1\<rparr>"
  have srt: "mfc_sorted (mMulticastForwardingCache mrm_blocked)"
    by (simp add: mrm_blocked_cache)
  have en: "IsEnabled mrm_blocked" by (simp add: IsEnabled_def mrm_blocked_cache)
  have fresh: "ip6_ff05_beef \<notin> mListenerSet mrm_blocked" by (simp add: mrm_blocked_cache)
  have mem: "(?r, ?i) \<in> set (mMulticastForwardingCache mrm_blocked)"
    by (simp add: mrm_blocked_cache)
  note t = Add_unblocks_on_success [OF srt en fresh mem, of host_ok]
  have e: "map_option (\<lambda>s'. mfc_find ?r (mMulticastForwardingCache s'))
        (Add host_ok ip6_ff05_beef mrm_blocked)
       = Some (Some \<lparr>mLastUseTime = 301000000002, mValidPktCnt = 0,
                     mOif = kMifIndexThread, mIif = kMifIndexBackbone\<rparr>)"
    using t
    by (simp add: Add_def UnblockInboundMulticastForwardingCache_def unblock_entry_def
        mrm_blocked_cache IsEnabled_def issue_def Let_def host_ok_def
        MulticastRouteInfo_new_def Clock_now_def
        route_equiv_def route_less_def Ip6Address_neq_def Ip6Address_less_def
        kMifIndexThread_def kMifIndexBackbone_def kMifIndexNone_def)
  show ?thesis using srt en fresh mem e by simp
qed

subsection \<open>A listener is removed\<close>

lemma addr_neq: "ip6_ff05_abcd \<noteq> ip6_ff0e_1" "ip6_ff0e_1 \<noteq> ip6_ff05_abcd"
  "ip6_ff05_abcd < ip6_ff0e_1" "\<not> ip6_ff0e_1 < ip6_ff05_abcd"
  by (simp_all add: ip6_ff05_abcd_def ip6_ff0e_1_def)

lemma mrm_two_eq:
  "mrm_two =
     \<lparr>mListenerSet = {ip6_ff05_abcd}, mMulticastRouterSock = 7,
      mMulticastForwardingCache =
        [(\<lparr>mSrcAddr = ip6_2001_db8_1, mGroupAddr = ip6_ff05_abcd\<rparr>,
          \<lparr>mLastUseTime = 301000000001, mValidPktCnt = 0, mOif = 0, mIif = 1\<rparr>),
         (\<lparr>mSrcAddr = ip6_fd00_1, mGroupAddr = ip6_ff0e_1\<rparr>,
          \<lparr>mLastUseTime = 301000000003, mValidPktCnt = 0, mOif = 1, mIif = 0\<rparr>)],
      syscalls = syscalls (Enable host_ok MulticastRoutingManager_new) @
        [Setsockopt 7 (MRT6_ADD_MFC \<lparr>mf6cc_origin = ip6_2001_db8_1, mf6cc_mcastgrp = ip6_ff05_abcd,
                     mf6cc_parent = 1, mf6cc_ifset = {0}\<rparr>),
         Setsockopt 7 (MRT6_ADD_MFC \<lparr>mf6cc_origin = ip6_fd00_1, mf6cc_mcastgrp = ip6_ff0e_1,
                     mf6cc_parent = 0, mf6cc_ifset = {1}\<rparr>)],
      clock_reads = 4\<rparr>"
  unfolding mrm_two_def Enable_host_ok
  by (simp add: Add_def IsEnabled_def UnblockInboundMulticastForwardingCache_def addmfc_eval
        host_ok_def GetScope_ff0e_1 addr_neq)

text \<open>
  C2 says that \<^verbatim>\<open>Remove\<close> of a group, on an enabled manager, erases from the cache the
  entries with \<open>iif\<close> Backbone and that group and leaves every other entry unchanged.  The
  code does not: after its loop, \<^verbatim>\<open>RemoveInboundMulticastForwardingCache\<close> clears the
  whole cache.  Here the cache holds an entry from Backbone for the removed group and an
  entry from Thread for another group; \<^verbatim>\<open>MRT6_DEL_MFC\<close> is issued for the first only, the
  loop leaves the second in the cache, and after \<^verbatim>\<open>Remove\<close> the cache is empty.
\<close>

theorem Remove_clears_whole_cache:
  "IsEnabled mrm_two
   \<and> ip6_ff05_abcd \<in> mListenerSet mrm_two
   \<and> mfc_find \<lparr>mSrcAddr = ip6_fd00_1, mGroupAddr = ip6_ff0e_1\<rparr>
        (mMulticastForwardingCache mrm_two)
       = Some \<lparr>mLastUseTime = 301000000003, mValidPktCnt = 0,
               mOif = kMifIndexBackbone, mIif = kMifIndexThread\<rparr>
   \<and> mMulticastForwardingCache
        (remove_loop host_ok ip6_ff05_abcd (mMulticastForwardingCache mrm_two)
           (mrm_two\<lparr>mListenerSet := mListenerSet mrm_two - {ip6_ff05_abcd}\<rparr>))
       = [(\<lparr>mSrcAddr = ip6_fd00_1, mGroupAddr = ip6_ff0e_1\<rparr>,
           \<lparr>mLastUseTime = 301000000003, mValidPktCnt = 0,
            mOif = kMifIndexBackbone, mIif = kMifIndexThread\<rparr>)]
   \<and> map_option (issued_since mrm_two) (Remove host_ok ip6_ff05_abcd mrm_two)
       = Some [Setsockopt 7 (MRT6_DEL_MFC \<lparr>mf6cc_origin = ip6_2001_db8_1,
                  mf6cc_mcastgrp = ip6_ff05_abcd, mf6cc_parent = kMifIndexBackbone,
                  mf6cc_ifset = {}\<rparr>)]
   \<and> map_option mMulticastForwardingCache (Remove host_ok ip6_ff05_abcd mrm_two) = Some []"
  by (simp add: mrm_two_eq Remove_def RemoveInboundMulticastForwardingCache_def remove_entry_def
        IsEnabled_def issued_since_def issue_def Let_def host_ok_def ENOENT_def addr_neq
        route_equiv_def route_less_def Ip6Address_eq_def Ip6Address_neq_def Ip6Address_less_def
        kMifIndexThread_def kMifIndexBackbone_def)

end
